theory Spec2Isabelle
  imports Complex_Main
begin

section \<open>The number type of the program\<close>

text \<open>
  Every numeric value of the program is a JavaScript \<open>number\<close>, an IEEE 754 binary64
  value. The model keeps the three special values apart from the finite ones:
  \<open>Infinity\<close>, \<open>-Infinity\<close> and \<open>NaN\<close>. A finite value is the real number it
  stands for, and every arithmetic operation rounds its exact result to the nearest
  binary64 value, ties to the even significand (\<open>rnd\<close>): 53 significant bits, gradual
  underflow below \<open>2 powi (- 1022)\<close>, and an infinity when the rounded magnitude reaches
  \<open>2 ^ 1024\<close>.

  Zero carries no sign: it stands for the positive zero. The divisions by zero that the
  functions below can compute from finite arguments divide by a difference \<open>a - a\<close>
  or by a sum of squares, which are the positive zero in the program as well, or by an
  argument that is zero; so a nonzero numerator over zero gives the infinity of the
  numerator's sign, and \<open>0 / 0\<close> is \<open>NaN\<close>.
\<close>

datatype jsnum = Fin real | PInf | NInf | NaN

text \<open>
  The binade of a nonzero real (the exponent of its leading bit, not below that of the
  smallest normal number), the spacing of the binary64 values there, and rounding to the
  nearest integer with ties to even.
\<close>

definition binade :: "real \<Rightarrow> int" where
  "binade a = max \<lfloor>log 2 \<bar>a\<bar>\<rfloor> (- 1022)"

definition ulp :: "real \<Rightarrow> real" where
  "ulp a = 2 powi (binade a - 52)"

definition round_even :: "real \<Rightarrow> int" where
  "round_even m =
     (let n = \<lfloor>m\<rfloor>; d = m - of_int n
      in if d < 1 / 2 then n else if 1 / 2 < d then n + 1 else if even n then n else n + 1)"

definition rnd :: "real \<Rightarrow> jsnum" where
  "rnd a =
     (if a = 0 then Fin 0
      else
        let r = of_int (round_even (a / ulp a)) * ulp a
        in if 2 ^ 1024 \<le> \<bar>r\<bar> then (if 0 < a then PInf else NInf) else Fin r)"

fun js_neg :: "jsnum \<Rightarrow> jsnum" where
  "js_neg (Fin a) = Fin (- a)"
| "js_neg PInf = NInf"
| "js_neg NInf = PInf"
| "js_neg NaN = NaN"

fun js_add :: "jsnum \<Rightarrow> jsnum \<Rightarrow> jsnum" where
  "js_add NaN _ = NaN"
| "js_add _ NaN = NaN"
| "js_add (Fin a) (Fin b) = rnd (a + b)"
| "js_add PInf NInf = NaN"
| "js_add NInf PInf = NaN"
| "js_add PInf _ = PInf"
| "js_add _ PInf = PInf"
| "js_add NInf _ = NInf"
| "js_add _ NInf = NInf"

definition js_sub :: "jsnum \<Rightarrow> jsnum \<Rightarrow> jsnum" where
  "js_sub a b = js_add a (js_neg b)"

text \<open>The sign of a value (\<open>0\<close> for zero and for \<open>NaN\<close>), and the infinity of a sign.\<close>

fun js_sign :: "jsnum \<Rightarrow> real" where
  "js_sign (Fin a) = sgn a"
| "js_sign PInf = 1"
| "js_sign NInf = - 1"
| "js_sign NaN = 0"

definition inf_of_sign :: "real \<Rightarrow> jsnum" where
  "inf_of_sign s = (if 0 < s then PInf else if s < 0 then NInf else NaN)"

fun js_mul :: "jsnum \<Rightarrow> jsnum \<Rightarrow> jsnum" where
  "js_mul NaN _ = NaN"
| "js_mul _ NaN = NaN"
| "js_mul (Fin a) (Fin b) = rnd (a * b)"
| "js_mul a b = inf_of_sign (js_sign a * js_sign b)"

fun js_div :: "jsnum \<Rightarrow> jsnum \<Rightarrow> jsnum" where
  "js_div NaN _ = NaN"
| "js_div _ NaN = NaN"
| "js_div (Fin a) (Fin b) = (if b = 0 then inf_of_sign (sgn a) else rnd (a / b))"
| "js_div (Fin a) _ = Fin 0"
| "js_div a (Fin b) = inf_of_sign (js_sign a * (if b < 0 then - 1 else 1))"
| "js_div _ _ = NaN"

fun js_abs :: "jsnum \<Rightarrow> jsnum" where
  "js_abs (Fin a) = Fin \<bar>a\<bar>"
| "js_abs PInf = PInf"
| "js_abs NInf = PInf"
| "js_abs NaN = NaN"

fun js_sqrt :: "jsnum \<Rightarrow> jsnum" where
  "js_sqrt (Fin a) = (if a < 0 then NaN else rnd (sqrt a))"
| "js_sqrt PInf = PInf"
| "js_sqrt NInf = NaN"
| "js_sqrt NaN = NaN"

text \<open>Comparisons: every comparison with \<open>NaN\<close> is false, also \<open>NaN === NaN\<close>.\<close>

fun js_lt :: "jsnum \<Rightarrow> jsnum \<Rightarrow> bool" where
  "js_lt NaN _ = False"
| "js_lt _ NaN = False"
| "js_lt (Fin a) (Fin b) = (a < b)"
| "js_lt NInf NInf = False"
| "js_lt NInf _ = True"
| "js_lt _ NInf = False"
| "js_lt PInf _ = False"
| "js_lt _ PInf = True"

definition js_gt :: "jsnum \<Rightarrow> jsnum \<Rightarrow> bool" where
  "js_gt a b = js_lt b a"

definition js_eq :: "jsnum \<Rightarrow> jsnum \<Rightarrow> bool" where
  "js_eq a b = (a \<noteq> NaN \<and> b \<noteq> NaN \<and> a = b)"

section \<open>physics.ts\<close>

datatype MirrorType = PLANE | CONCAVE | CONVEX

record SimulationState =
  mirrorType :: MirrorType
  focalLength :: jsnum
  objectDistance :: jsnum
  objectHeight :: jsnum

record ImageResult =
  imageDistance :: jsnum
  imageHeight :: jsnum
  magnification :: jsnum
  isReal :: bool

definition calculateImageDistance :: "jsnum \<Rightarrow> jsnum \<Rightarrow> jsnum" where
  "calculateImageDistance objDist f =
     (if js_eq objDist f then PInf
      else js_div (js_mul objDist f) (js_sub objDist f))"

definition calculateObjectDistance :: "jsnum \<Rightarrow> jsnum \<Rightarrow> jsnum" where
  "calculateObjectDistance di f =
     (if js_eq di f then PInf
      else js_div (js_mul di f) (js_sub di f))"

definition calculateImage :: "SimulationState \<Rightarrow> ImageResult" where
  "calculateImage state =
     (if mirrorType state = PLANE then
        \<lparr> imageDistance = js_neg (objectDistance state),
          imageHeight = objectHeight state,
          magnification = Fin 1,
          isReal = False \<rparr>
      else
        let di = calculateImageDistance (objectDistance state) (focalLength state);
            magnification = js_div (js_neg di) (objectDistance state);
            imageHeight = js_mul magnification (objectHeight state)
        in \<lparr> imageDistance = di,
             imageHeight = imageHeight,
             magnification = magnification,
             isReal = js_gt di (Fin 0) \<rparr>)"

section \<open>App.tsx\<close>

subsection \<open>The functions of \<open>Math\<close> used by the drawing code\<close>

text \<open>
  The language leaves the last bits of the trigonometric functions to the implementation;
  the model takes them correctly rounded. They enter the end points of the reflected
  segments only.
\<close>

fun js_cos :: "jsnum \<Rightarrow> jsnum" where
  "js_cos (Fin a) = rnd (cos a)"
| "js_cos _ = NaN"

fun js_sin :: "jsnum \<Rightarrow> jsnum" where
  "js_sin (Fin a) = rnd (sin a)"
| "js_sin _ = NaN"

fun js_tan :: "jsnum \<Rightarrow> jsnum" where
  "js_tan (Fin a) = rnd (tan a)"
| "js_tan _ = NaN"

definition atan2_real :: "real \<Rightarrow> real \<Rightarrow> real" where
  "atan2_real b a =
     (if 0 < a then arctan (b / a)
      else if a < 0 then (if 0 \<le> b then arctan (b / a) + pi else arctan (b / a) - pi)
      else if 0 < b then pi / 2
      else if b < 0 then - (pi / 2)
      else 0)"

fun js_atan2 :: "jsnum \<Rightarrow> jsnum \<Rightarrow> jsnum" where
  "js_atan2 NaN _ = NaN"
| "js_atan2 _ NaN = NaN"
| "js_atan2 (Fin b) (Fin a) = rnd (atan2_real b a)"
| "js_atan2 (Fin b) PInf = Fin 0"
| "js_atan2 (Fin b) NInf = rnd (if b < 0 then - pi else pi)"
| "js_atan2 PInf (Fin a) = rnd (pi / 2)"
| "js_atan2 NInf (Fin a) = rnd (- (pi / 2))"
| "js_atan2 PInf PInf = rnd (pi / 4)"
| "js_atan2 PInf NInf = rnd (3 * pi / 4)"
| "js_atan2 NInf PInf = rnd (- (pi / 4))"
| "js_atan2 NInf NInf = rnd (- (3 * pi / 4))"

subsection \<open>The component's state\<close>

text \<open>The initial values of the four \<open>useState\<close> cells; the canvas is 800 by 500.\<close>

definition initialState :: SimulationState where
  "initialState =
     \<lparr> mirrorType = CONCAVE, focalLength = Fin 100, objectDistance = Fin 200,
       objectHeight = Fin 50 \<rparr>"

subsection \<open>The inverse-drive handler\<close>

text \<open>
  The component's state is the four \<open>useState\<close> cells, which are the fields of
  \<open>SimulationState\<close>. \<open>setObjectDistance\<close> is the update of that field; a handler
  that calls no setter returns the state as it was.
\<close>

definition handleImageDistanceChange :: "SimulationState \<Rightarrow> jsnum \<Rightarrow> SimulationState" where
  "handleImageDistanceChange state di =
     (if mirrorType state = PLANE then state\<lparr> objectDistance := js_abs di \<rparr>
      else
        let newDo = calculateObjectDistance di (focalLength state)
        in if js_gt newDo (Fin 0) \<and> js_lt newDo (Fin 1000)
           then state\<lparr> objectDistance := newDo \<rparr>
           else state)"

subsection \<open>The drawing effect\<close>

record Point =
  x :: jsnum
  y :: jsnum

text \<open>
  \<open>getIntersection\<close> is a closure over \<open>mirrorType\<close>, \<open>centerX\<close>, \<open>centerY\<close>,
  \<open>Cx\<close>, \<open>Cy\<close> and \<open>absR\<close>; here they are its first six arguments.
\<close>

definition getIntersection ::
  "MirrorType \<Rightarrow> jsnum \<Rightarrow> jsnum \<Rightarrow> jsnum \<Rightarrow> jsnum \<Rightarrow> jsnum
     \<Rightarrow> jsnum \<Rightarrow> jsnum \<Rightarrow> jsnum \<Rightarrow> jsnum \<Rightarrow> Point" where
  "getIntersection mt centerX centerY Cx Cy absR x1 y1 x2 y2 =
     (if mt = PLANE then
        \<lparr> x = centerX,
          y = js_add y1 (js_div (js_mul (js_sub centerX x1) (js_sub y2 y1)) (js_sub x2 x1)) \<rparr>
      else
        let dx = js_sub x2 x1;
            dy = js_sub y2 y1;
            A = js_add (js_mul dx dx) (js_mul dy dy);
            B = js_mul (Fin 2) (js_add (js_mul dx (js_sub x1 Cx)) (js_mul dy (js_sub y1 Cy)));
            C = js_sub (js_add (js_mul (js_sub x1 Cx) (js_sub x1 Cx))
                               (js_mul (js_sub y1 Cy) (js_sub y1 Cy)))
                       (js_mul absR absR);
            det = js_sub (js_mul B B) (js_mul (js_mul (Fin 4) A) C)
        in if js_lt det (Fin 0) then \<lparr> x = centerX, y = centerY \<rparr>
           else
             let t1 = js_div (js_add (js_neg B) (js_sqrt det)) (js_mul (Fin 2) A);
                 t2 = js_div (js_sub (js_neg B) (js_sqrt det)) (js_mul (Fin 2) A);
                 p1 = \<lparr> x = js_add x1 (js_mul t1 dx), y = js_add y1 (js_mul t1 dy) \<rparr>;
                 p2 = \<lparr> x = js_add x1 (js_mul t2 dx), y = js_add y1 (js_mul t2 dy) \<rparr>
             in if js_lt (js_abs (js_sub (x p1) centerX)) (js_abs (js_sub (x p2) centerX))
                then p1 else p2)"

text \<open>
  What the effect strokes on the canvas is kept as data: a segment is one
  \<open>moveTo\<close>/\<open>lineTo\<close> pair with the stroke colour and the line dash in force.
  \<open>drawRay\<close> strokes the incident segment, the reflected segment and, when
  \<open>showVirtual\<close> holds, the virtual extension with dash \<open>[2, 4]\<close>; the dash is
  \<open>[]\<close> whenever \<open>drawRay\<close> is entered.
\<close>

record Segment =
  moveTo :: Point
  lineTo :: Point
  strokeStyle :: string
  lineDash :: "nat list"

definition drawRay ::
  "jsnum \<Rightarrow> jsnum \<Rightarrow> jsnum \<Rightarrow> jsnum \<Rightarrow> jsnum \<Rightarrow> jsnum \<Rightarrow> string \<Rightarrow> bool
     \<Rightarrow> jsnum \<Rightarrow> jsnum \<Rightarrow> Segment list" where
  "drawRay x1 y1 mx my rx ry color showVirtual vx vy =
     [ \<lparr> moveTo = \<lparr> x = x1, y = y1 \<rparr>, lineTo = \<lparr> x = mx, y = my \<rparr>,
         strokeStyle = color, lineDash = [] \<rparr>,
       \<lparr> moveTo = \<lparr> x = mx, y = my \<rparr>, lineTo = \<lparr> x = rx, y = ry \<rparr>,
         strokeStyle = color, lineDash = [] \<rparr> ]
     @ (if showVirtual then
          [ \<lparr> moveTo = \<lparr> x = mx, y = my \<rparr>, lineTo = \<lparr> x = vx, y = vy \<rparr>,
              strokeStyle = color, lineDash = [2, 4] \<rparr> ]
        else [])"

text \<open>
  Of \<open>drawArrow\<close> the model keeps the shaft, from \<open>(x1, y1)\<close> to the tip
  \<open>(x2, y2)\<close>; the arrow head and the label are left out.
\<close>

definition drawArrow ::
  "jsnum \<Rightarrow> jsnum \<Rightarrow> jsnum \<Rightarrow> jsnum \<Rightarrow> string \<Rightarrow> nat list \<Rightarrow> Segment" where
  "drawArrow x1 y1 x2 y2 color dash =
     \<lparr> moveTo = \<lparr> x = x1, y = y1 \<rparr>, lineTo = \<lparr> x = x2, y = y2 \<rparr>,
       strokeStyle = color, lineDash = dash \<rparr>"

text \<open>
  The effect, for the \<open>image\<close> of the current render and a canvas of the given width
  and height: the image tip it computes, the object arrow, the image arrow (drawn only
  when \<open>|imageDistance| < 2000\<close>) and one list of segments for each call of
  \<open>drawRay\<close>, in the order of the calls. The optical axis, the mirror and the marks
  of F and C are not part of the model.
\<close>

record Drawing =
  imgTipX :: jsnum
  imgTipY :: jsnum
  objectArrow :: Segment
  imageArrow :: "Segment option"
  rays :: "Segment list list"

definition drawEffect ::
  "SimulationState \<Rightarrow> ImageResult \<Rightarrow> jsnum \<Rightarrow> jsnum \<Rightarrow> Drawing" where
  "drawEffect state img width height =
     (let centerX = js_sub (js_div width (Fin 2)) (Fin 100);
          centerY = js_div height (Fin 2);
          R = js_mul (Fin 2) (focalLength state);
          absR = js_abs R;
          Cx = js_sub centerX R;
          Cy = centerY;
          intersection = getIntersection (mirrorType state) centerX centerY Cx Cy absR;
          objX = js_sub centerX (objectDistance state);
          objY = js_sub centerY (objectHeight state);
          tipX = js_sub centerX (imageDistance img);
          tipY = (if mirrorType state \<noteq> PLANE
                  then y (intersection objX objY (js_sub centerX (focalLength state)) centerY)
                  else js_sub centerY (imageHeight img))
      in \<lparr> imgTipX = tipX,
           imgTipY = tipY,
           objectArrow = drawArrow objX centerY objX objY ''#10b981'' [],
           imageArrow =
             (if js_lt (js_abs (imageDistance img)) (Fin 2000) then
                Some (drawArrow (js_sub centerX (imageDistance img)) centerY
                        (js_sub centerX (imageDistance img)) tipY
                        (if isReal img then ''#f59e0b'' else ''#f59e0b99'')
                        (if isReal img then [] else [5, 5]))
              else None),
           rays =
             (if mirrorType state = PLANE then
                let angle = js_atan2 (js_sub objY centerY) (js_sub objX centerX)
                in [ drawRay objX objY centerX objY (Fin (- 500)) objY ''#6366f1'' True
                       tipX objY,
                     drawRay objX objY centerX centerY (js_sub centerX (Fin 500))
                       (js_add centerY (js_mul (Fin 500) (js_tan (js_neg angle))))
                       ''#6366f1'' True tipX tipY ]
              else
                let m1 = intersection objX objY (js_add centerX (Fin 100)) objY;
                    fPoint = \<lparr> x = js_sub centerX (focalLength state), y = centerY \<rparr>;
                    angle1 =
                      (if mirrorType state = CONVEX
                       then js_atan2 (js_sub (y m1) (y fPoint)) (js_sub (x m1) (x fPoint))
                       else js_atan2 (js_sub (y fPoint) (y m1)) (js_sub (x fPoint) (x m1)));
                    rx1 = js_add (x m1) (js_mul (Fin 1000) (js_cos angle1));
                    ry1 = js_add (y m1) (js_mul (Fin 1000) (js_sin angle1));
                    fX = js_sub centerX (focalLength state);
                    m2 = intersection objX objY fX centerY;
                    cX = js_sub centerX (js_mul (Fin 2) (focalLength state));
                    m3 = intersection objX objY cX centerY;
                    angle3 = js_atan2 (js_sub (y m3) centerY) (js_sub (x m3) cX);
                    rx3 = js_add (x m3) (js_mul (Fin 1000) (js_cos angle3));
                    ry3 = js_add (y m3) (js_mul (Fin 1000) (js_sin angle3));
                    finalRx3 = (if js_gt rx3 (x m3)
                                then js_sub (x m3) (js_mul (Fin 1000) (js_cos angle3))
                                else rx3);
                    finalRy3 = (if js_gt rx3 (x m3)
                                then js_sub (y m3) (js_mul (Fin 1000) (js_sin angle3))
                                else ry3)
                in [ drawRay objX objY (x m1) (y m1) rx1 ry1 ''#6366f1'' (\<not> isReal img)
                       tipX tipY,
                     drawRay objX objY (x m2) (y m2) (js_sub (x m2) (Fin 1000)) (y m2)
                       ''#8b5cf6'' (\<not> isReal img) tipX tipY,
                     drawRay objX objY (x m3) (y m3) finalRx3 finalRy3 ''#ec4899''
                       (\<not> isReal img) tipX tipY ]) \<rparr>)"

text \<open>
  The component: \<open>image\<close> is computed from the state on every render; the side
  panel shows its fields and the effect draws with it.
\<close>

record View =
  shown :: ImageResult
  drawing :: Drawing

definition App :: "SimulationState \<Rightarrow> jsnum \<Rightarrow> jsnum \<Rightarrow> View" where
  "App state width height =
     (let img = calculateImage state
      in \<lparr> shown = img, drawing = drawEffect state img width height \<rparr>)"

section \<open>Notions of the specification\<close>









text \<open>
  A ray as \<open>drawRay\<close> strokes it has a virtual extension to \<open>tip\<close> when its third
  segment is dashed, starts at the reflection point (the end of the incident segment)
  and ends at \<open>tip\<close>.
\<close>

definition virtualExtensionTo :: "Segment list \<Rightarrow> Point \<Rightarrow> bool" where
  "virtualExtensionTo ray tip =
     (case ray of
        [incident, reflected, virtual] \<Rightarrow>
          moveTo virtual = lineTo incident \<and> lineTo virtual = tip \<and> lineDash virtual = [2, 4]
      | _ \<Rightarrow> False)"

section \<open>Rounding\<close>

subsection \<open>The rounding function\<close>

lemma round_even_error: "\<bar>of_int (round_even m) - m\<bar> \<le> 1 / 2"
  unfolding round_even_def Let_def by (auto simp add: abs_if) linarith+

lemma round_even_of_int [simp]: "round_even (of_int n) = n"
  by (simp add: round_even_def)

lemma round_even_unique:
  assumes "\<bar>m - of_int n\<bar> < 1 / 2"
  shows "round_even m = n"
proof -
  have "\<bar>of_int (round_even m) - m\<bar> \<le> 1 / 2" by (rule round_even_error)
  with assms have "\<bar>real_of_int (round_even m) - of_int n\<bar> < 1" by linarith
  then have "\<bar>round_even m - n\<bar> < 1"
    by (metis (mono_tags) of_int_1 of_int_abs of_int_diff of_int_less_iff)
  then show ?thesis by simp
qed

lemma powi_less_cancel:
  assumes "(2::real) powi a < 2 powi b"
  shows "a < b"
proof (rule ccontr)
  assume "\<not> a < b"
  then have "(2::real) powi b \<le> 2 powi a"
    by (intro power_int_increasing) simp_all
  with assms show False by simp
qed

lemma floor_log2:
  assumes "a \<noteq> 0"
  shows "2 powi \<lfloor>log 2 \<bar>a\<bar>\<rfloor> \<le> \<bar>a\<bar>" and "\<bar>a\<bar> < 2 powi (\<lfloor>log 2 \<bar>a\<bar>\<rfloor> + 1)"
proof -
  have pos: "0 < \<bar>a\<bar>" using assms by simp
  have "2 powr \<lfloor>log 2 \<bar>a\<bar>\<rfloor> \<le> \<bar>a\<bar> \<and> \<bar>a\<bar> < 2 powr (\<lfloor>log 2 \<bar>a\<bar>\<rfloor> + 1)"
    using floor_log_eq_powr_iff [OF pos, of 2 "\<lfloor>log 2 \<bar>a\<bar>\<rfloor>"] by simp
  then show "2 powi \<lfloor>log 2 \<bar>a\<bar>\<rfloor> \<le> \<bar>a\<bar>" and "\<bar>a\<bar> < 2 powi (\<lfloor>log 2 \<bar>a\<bar>\<rfloor> + 1)"
    using powr_real_of_int' [of 2 "\<lfloor>log 2 \<bar>a\<bar>\<rfloor>"] powr_real_of_int' [of 2 "\<lfloor>log 2 \<bar>a\<bar>\<rfloor> + 1"]
    by simp_all
qed

lemma floor_log2_eq:
  assumes "2 powi e \<le> \<bar>a\<bar>" and "\<bar>a\<bar> < 2 powi (e + 1)"
  shows "\<lfloor>log 2 \<bar>a\<bar>\<rfloor> = e"
proof -
  have pos: "0 < \<bar>a\<bar>"
    using assms(1) zero_less_power_int [of "2::real" e] by linarith
  show ?thesis
    using floor_log_eq_powr_iff [OF pos, of 2 e] assms
      powr_real_of_int' [of 2 e] powr_real_of_int' [of 2 "e + 1"]
    by simp
qed

lemma binade_normal:
  assumes "2 powi e \<le> \<bar>a\<bar>" and "\<bar>a\<bar> < 2 powi (e + 1)" and "- 1022 \<le> e"
  shows "binade a = e"
  using floor_log2_eq [OF assms(1,2)] assms(3) by (simp add: binade_def)

lemma binade_subnormal:
  assumes "a \<noteq> 0" and "\<bar>a\<bar> < 2 powi (- 1022)"
  shows "binade a = - 1022"
proof -
  have "2 powi \<lfloor>log 2 \<bar>a\<bar>\<rfloor> < (2::real) powi (- 1022)"
    using floor_log2(1) [OF assms(1)] assms(2) by linarith
  then have "\<lfloor>log 2 \<bar>a\<bar>\<rfloor> < - 1022"
    by (rule powi_less_cancel)
  then show ?thesis by (simp add: binade_def)
qed

lemma binade_bounds:
  assumes "a \<noteq> 0"
  shows "- 1022 \<le> binade a" and "\<bar>a\<bar> < 2 powi (binade a + 1)"
    and "2 powi (- 1022) \<le> \<bar>a\<bar> \<Longrightarrow> 2 powi binade a \<le> \<bar>a\<bar>"
proof -
  let ?k = "\<lfloor>log 2 \<bar>a\<bar>\<rfloor>"
  show "- 1022 \<le> binade a" by (simp add: binade_def)
  have "(2::real) powi (?k + 1) \<le> 2 powi (binade a + 1)"
    by (rule power_int_increasing) (simp_all add: binade_def)
  with floor_log2(2) [OF assms] show "\<bar>a\<bar> < 2 powi (binade a + 1)" by linarith
  assume n: "2 powi (- 1022) \<le> \<bar>a\<bar>"
  have "- 1022 \<le> ?k"
  proof (rule ccontr)
    assume "\<not> - 1022 \<le> ?k"
    then have "?k + 1 \<le> - 1022" by linarith
    then have "(2::real) powi (?k + 1) \<le> 2 powi (- 1022)"
      by (intro power_int_increasing) simp_all
    with floor_log2(2) [OF assms] n show False by linarith
  qed
  then have "binade a = ?k" by (simp add: binade_def)
  with floor_log2(1) [OF assms] show "2 powi binade a \<le> \<bar>a\<bar>" by simp
qed


lemma int_bound:
  fixes m :: int
  assumes "\<bar>real_of_int m\<bar> < 2 powi 53 + 1 / 2"
  shows "\<bar>real_of_int m\<bar> \<le> 2 powi 53"
proof -
  have "real_of_int \<bar>m\<bar> < real_of_int (9007199254740992 + 1)"
    using assms by simp
  then have "\<bar>m\<bar> < 9007199254740992 + 1"
    by (simp only: of_int_less_iff)
  then have "\<bar>m\<bar> \<le> 9007199254740992" by simp
  then have "real_of_int \<bar>m\<bar> \<le> real_of_int 9007199254740992"
    by (simp only: of_int_le_iff)
  then show ?thesis by simp
qed

lemma rnd_normal:
  assumes "2 powi e \<le> \<bar>a\<bar>" and "\<bar>a\<bar> < 2 powi (e + 1)" and "- 1022 \<le> e" and "e \<le> 1022"
    and "\<bar>a / 2 powi (e - 52) - of_int m\<bar> < 1 / 2"
  shows "rnd a = Fin (of_int m * 2 powi (e - 52))"
proof -
  let ?q = "(2::real) powi (e - 52)"
  have q: "0 < ?q" by simp
  have b: "binade a = e" by (rule binade_normal [OF assms(1,2,3)])
  have "0 < (2::real) powi e" by simp
  with assms(1) have "0 < \<bar>a\<bar>" by linarith
  then have a0: "a \<noteq> 0" by simp
  have r: "round_even (a / ?q) = m" by (rule round_even_unique [OF assms(5)])
  have "\<bar>a / ?q\<bar> < 2 powi 53"
  proof -
    have "\<bar>a\<bar> < 2 powi (e - 52 + 53)" using assms(2) by (simp add: algebra_simps)
    also have "\<dots> = ?q * 2 powi 53" by (subst power_int_add) simp_all
    finally have "\<bar>a\<bar> / ?q < 2 powi 53" using q by (simp add: field_simps)
    then show ?thesis using q by simp
  qed
  with assms(5) have "\<bar>real_of_int m\<bar> < 2 powi 53 + 1 / 2" by linarith
  then have "\<bar>real_of_int m\<bar> \<le> 2 powi 53" by (rule int_bound)
  then have "\<bar>real_of_int m * ?q\<bar> \<le> 2 powi 53 * ?q"
    using q by (simp add: abs_mult)
  also have "\<dots> = 2 powi (e + 1)"
  proof -
    have "e + 1 = 53 + (e - 52)" by simp
    then have "(2::real) powi (e + 1) = 2 powi (53 + (e - 52))" by (rule arg_cong)
    also have "\<dots> = 2 powi 53 * 2 powi (e - 52)" by (rule power_int_add) simp
    finally show ?thesis by simp
  qed
  also have "\<dots> \<le> 2 powi 1023"
    using assms(4) by (intro power_int_increasing) simp_all
  also have "\<dots> < 2 ^ 1024" by simp
  finally have "\<not> 2 ^ 1024 \<le> \<bar>real_of_int m * ?q\<bar>" by simp
  then show ?thesis
    using a0 b r by (simp add: rnd_def ulp_def Let_def)
qed

lemma rnd_rel_error:
  assumes "2 powi (- 1022) \<le> \<bar>a\<bar>" and "\<bar>a\<bar> \<le> 2 ^ 1023"
  shows "\<exists>d. \<bar>d\<bar> \<le> 2 powi (- 53) \<and> rnd a = Fin (a * (1 + d))"
proof -
  let ?e = "binade a"
  let ?q = "(2::real) powi (?e - 52)"
  let ?r = "real_of_int (round_even (a / ?q)) * ?q"
  have "0 < (2::real) powi (- 1022)" by (rule zero_less_power_int) simp
  with assms(1) have "0 < \<bar>a\<bar>" by linarith
  then have a0: "a \<noteq> 0" by simp
  have q: "0 < ?q" by simp
  have lo: "2 powi ?e \<le> \<bar>a\<bar>" by (rule binade_bounds(3) [OF a0 assms(1)])
  have "\<bar>real_of_int (round_even (a / ?q)) - a / ?q\<bar> \<le> 1 / 2"
    by (rule round_even_error)
  then have "\<bar>real_of_int (round_even (a / ?q)) - a / ?q\<bar> * ?q \<le> 1 / 2 * ?q"
    using q by (intro mult_right_mono) simp_all
  moreover have "\<bar>real_of_int (round_even (a / ?q)) - a / ?q\<bar> * ?q = \<bar>?r - a\<bar>"
  proof -
    have "(real_of_int (round_even (a / ?q)) - a / ?q) * ?q = ?r - a"
      using q by (simp add: field_simps)
    then have "\<bar>?r - a\<bar> = \<bar>real_of_int (round_even (a / ?q)) - a / ?q\<bar> * \<bar>?q\<bar>"
      by (simp only: abs_mult [symmetric])
    then show ?thesis using q by simp
  qed
  ultimately have err: "\<bar>?r - a\<bar> \<le> 1 / 2 * ?q" by simp
  have half: "1 / 2 * ?q = 2 powi (- 53) * 2 powi ?e"
  proof -
    have "(2::real) powi (?e - 52) = 2 powi (?e + (- 52))" by simp
    also have "\<dots> = 2 powi ?e * 2 powi (- 52)" by (subst power_int_add) simp_all
    finally show ?thesis by simp
  qed
  have err': "\<bar>?r - a\<bar> \<le> 2 powi (- 53) * \<bar>a\<bar>"
  proof -
    have "2 powi (- 53) * 2 powi ?e \<le> 2 powi (- 53) * \<bar>a\<bar>"
      using lo by (intro mult_left_mono) simp_all
    with err half show ?thesis by linarith
  qed
  have small: "\<bar>?r\<bar> < 2 ^ 1024"
  proof -
    have "\<bar>?r\<bar> \<le> \<bar>a\<bar> + \<bar>?r - a\<bar>" by linarith
    also have "\<dots> \<le> \<bar>a\<bar> + 2 powi (- 53) * \<bar>a\<bar>" using err' by simp
    also have "\<dots> \<le> 2 ^ 1023 + 2 powi (- 53) * 2 ^ 1023"
      using assms(2) by (intro add_mono mult_left_mono) simp_all
    also have "\<dots> < 2 ^ 1024" by simp
    finally show ?thesis .
  qed
  define d where "d = (?r - a) / a"
  have "\<bar>d\<bar> \<le> 2 powi (- 53)"
    using err' a0 by (simp add: d_def field_simps)
  moreover have "a * (1 + d) = ?r"
    using a0 by (simp add: d_def field_simps)
  moreover have "rnd a = Fin ?r"
    using a0 small by (simp add: rnd_def ulp_def Let_def)
  ultimately show ?thesis by metis
qed

lemma rnd_exact:
  assumes "a = of_int m * 2 powi k" and "\<bar>m\<bar> < 2 ^ 53" and "- 1074 \<le> k" and "\<bar>a\<bar> < 2 ^ 1024"
  shows "rnd a = Fin a"
proof (cases "a = 0")
  case True
  then show ?thesis by (simp add: rnd_def)
next
  case False
  define e where "e = binade a"
  define q :: real where "q = 2 powi (e - 52)"
  have q: "0 < q" by (simp add: q_def)
  have "e - 52 \<le> k"
  proof (cases "2 powi (- 1022) \<le> \<bar>a\<bar>")
    case True
    have "2 powi e \<le> \<bar>a\<bar>"
      unfolding e_def by (rule binade_bounds(3) [OF False True])
    also have "\<bar>a\<bar> = \<bar>real_of_int m\<bar> * 2 powi k"
      by (simp add: assms(1) abs_mult)
    also have "\<dots> < 2 ^ 53 * 2 powi k"
    proof -
      have "\<bar>real_of_int m\<bar> < 2 ^ 53"
        using assms(2) by (metis of_int_abs of_int_less_iff of_int_numeral of_int_power)
      then show ?thesis by (intro mult_strict_right_mono) simp_all
    qed
    also have "\<dots> = 2 powi (53 + k)"
      by (subst power_int_add) simp_all
    finally have "e < 53 + k"
      by (rule powi_less_cancel)
    then show ?thesis by simp
  next
    case False
    then have "binade a = - 1022"
      using binade_subnormal [OF \<open>a \<noteq> 0\<close>] by simp
    then show ?thesis using assms(3) by (simp add: e_def)
  qed
  then obtain j :: nat where j: "k = (e - 52) + int j"
    by (metis zle_iff_zadd)
  have pk: "2 powi k = q * 2 ^ j"
    unfolding q_def by (subst j, subst power_int_add) simp_all
  have "a = real_of_int (m * 2 ^ j) * q"
    unfolding assms(1) pk by simp
  then have aq: "a / q = real_of_int (m * 2 ^ j)"
    using q by simp
  have "round_even (a / q) = m * 2 ^ j"
    unfolding aq by (rule round_even_of_int)
  then have "real_of_int (round_even (a / q)) * q = a"
    using \<open>a = real_of_int (m * 2 ^ j) * q\<close> by simp
  then show ?thesis
    using False assms(4) by (simp add: rnd_def ulp_def Let_def e_def [symmetric] q_def [symmetric])
qed

lemma rnd_of_int:
  assumes "\<bar>n\<bar> < 2 ^ 53"
  shows "rnd (of_int n) = Fin (of_int n)"
proof (rule rnd_exact [where m = n and k = 0])
  show "real_of_int n = real_of_int n * 2 powi 0" by simp
  show "\<bar>n\<bar> < 2 ^ 53" by (rule assms)
  show "- 1074 \<le> (0::int)" by simp
  have "\<bar>real_of_int n\<bar> < 2 ^ 53"
    using assms by (metis of_int_abs of_int_less_iff of_int_numeral of_int_power)
  then show "\<bar>real_of_int n\<bar> < 2 ^ 1024" by simp
qed

lemma rnd_numeral:
  "\<bar>numeral w :: int\<bar> < 2 ^ 53 \<Longrightarrow> rnd (numeral w) = Fin (numeral w)"
  using rnd_of_int [of "numeral w"] by (simp only: of_int_numeral)

lemma rnd_neg_numeral:
  "\<bar>numeral w :: int\<bar> < 2 ^ 53 \<Longrightarrow> rnd (- numeral w) = Fin (- numeral w)"
  using rnd_of_int [of "- numeral w"] by (simp only: of_int_numeral of_int_minus abs_minus_cancel)

lemma rnd_value:
  assumes "2 powi e \<le> \<bar>a\<bar>" and "\<bar>a\<bar> < 2 powi (e + 1)" and "- 1022 \<le> e" and "e \<le> 1022"
    and "round_even (a / 2 powi (e - 52)) = m"
  shows "rnd a = Fin (of_int m * 2 powi (e - 52))"
proof -
  let ?q = "(2::real) powi (e - 52)"
  have q: "0 < ?q" by simp
  have b: "binade a = e" by (rule binade_normal [OF assms(1,2,3)])
  have "0 < (2::real) powi e" by simp
  with assms(1) have "0 < \<bar>a\<bar>" by linarith
  then have a0: "a \<noteq> 0" by simp
  have near: "\<bar>real_of_int m - a / ?q\<bar> \<le> 1 / 2"
    using round_even_error [of "a / ?q"] by (simp only: assms(5))
  have "\<bar>a / ?q\<bar> < 2 powi 53"
  proof -
    have "\<bar>a\<bar> < 2 powi (e - 52 + 53)" using assms(2) by (simp add: algebra_simps)
    also have "\<dots> = ?q * 2 powi 53" by (subst power_int_add) simp_all
    finally have "\<bar>a\<bar> / ?q < 2 powi 53" using q by (simp add: field_simps)
    then show ?thesis using q by simp
  qed
  with near have "\<bar>real_of_int m\<bar> < 2 powi 53 + 1 / 2" by linarith
  then have "\<bar>real_of_int m\<bar> \<le> 2 powi 53" by (rule int_bound)
  then have "\<bar>real_of_int m * ?q\<bar> \<le> 2 powi 53 * ?q"
    using q by (simp add: abs_mult)
  also have "\<dots> = 2 powi (e + 1)"
  proof -
    have "e + 1 = 53 + (e - 52)" by simp
    then have "(2::real) powi (e + 1) = 2 powi (53 + (e - 52))" by (rule arg_cong)
    also have "\<dots> = 2 powi 53 * 2 powi (e - 52)" by (rule power_int_add) simp
    finally show ?thesis by simp
  qed
  also have "\<dots> \<le> 2 powi 1023"
    using assms(4) by (intro power_int_increasing) simp_all
  also have "\<dots> < 2 ^ 1024" by simp
  finally have "\<not> 2 ^ 1024 \<le> \<bar>real_of_int m * ?q\<bar>" by simp
  then show ?thesis
    using a0 b assms(5) by (simp add: rnd_def ulp_def Let_def)
qed

lemma sqrt_between:
  assumes "0 \<le> lo" and "lo\<^sup>2 < a" and "a < hi\<^sup>2" and "0 \<le> hi"
  shows "lo < sqrt a" and "sqrt a < hi"
proof -
  have "sqrt (lo\<^sup>2) < sqrt a" using assms(2) by (simp only: real_sqrt_less_iff)
  then show "lo < sqrt a" using assms(1) by simp
  have "sqrt a < sqrt (hi\<^sup>2)" using assms(3) by (simp only: real_sqrt_less_iff)
  then show "sqrt a < hi" using assms(4) by simp
qed

lemma rnd_sqrt_normal:
  assumes "(2 powi e)\<^sup>2 \<le> a" and "a < (2 powi (e + 1))\<^sup>2" and "- 1022 \<le> e" and "e \<le> 1022"
    and "1 \<le> m"
    and "((of_int m - 1 / 2) * 2 powi (e - 52))\<^sup>2 < a"
    and "a < ((of_int m + 1 / 2) * 2 powi (e - 52))\<^sup>2"
    and "r = of_int m * 2 powi (e - 52)"
  shows "rnd (sqrt a) = Fin r"
proof -
  let ?q = "(2::real) powi (e - 52)"
  have q: "0 < ?q" by simp
  have m: "1 \<le> real_of_int m" using assms(5) by simp
  have "sqrt ((2 powi e)\<^sup>2) \<le> sqrt a" using assms(1) by (simp only: real_sqrt_le_iff)
  then have lo: "2 powi e \<le> \<bar>sqrt a\<bar>" by simp
  have "a < (2 powi (e + 1))\<^sup>2" by (rule assms(2))
  moreover have "0 < ((2::real) powi e)\<^sup>2" by simp
  with assms(1) have "0 < a" by linarith
  ultimately have "sqrt a < 2 powi (e + 1)"
    by (intro sqrt_between(2) [where lo = 0]) simp_all
  then have hi: "\<bar>sqrt a\<bar> < 2 powi (e + 1)" using \<open>0 < a\<close> by simp
  have "(of_int m - 1 / 2) * ?q < sqrt a" "sqrt a < (of_int m + 1 / 2) * ?q"
    using assms(6,7) m q by (intro sqrt_between [OF _ assms(6,7)]; simp)+
  then have "of_int m - 1 / 2 < sqrt a / ?q" "sqrt a / ?q < of_int m + 1 / 2"
    using q by (simp_all add: field_simps)
  then have "\<bar>sqrt a / ?q - of_int m\<bar> < 1 / 2" by linarith
  then show ?thesis
    unfolding assms(8) by (rule rnd_normal [OF lo hi assms(3,4)])
qed


lemma rnd_zero [simp]: "rnd 0 = Fin 0"
  by (simp add: rnd_def)

lemma rnd_one: "rnd 1 = Fin 1" "rnd (- 1) = Fin (- 1)"
  using rnd_of_int [of 1] rnd_of_int [of "- 1"] by simp_all

lemmas rnd_ints = rnd_numeral rnd_neg_numeral rnd_one

subsection \<open>Error bounds\<close>

lemma abs_mult_bounds:
  fixes a b :: real
  assumes "la \<le> \<bar>a\<bar>" and "\<bar>a\<bar> \<le> ha" and "lb \<le> \<bar>b\<bar>" and "\<bar>b\<bar> \<le> hb"
    and "0 \<le> la" and "0 \<le> lb"
  shows "la * lb \<le> \<bar>a * b\<bar>" and "\<bar>a * b\<bar> \<le> ha * hb"
  unfolding abs_mult using assms by (auto intro!: mult_mono)

lemma abs_divide_bounds:
  fixes a b :: real
  assumes "la \<le> \<bar>a\<bar>" and "\<bar>a\<bar> \<le> ha" and "lb \<le> \<bar>b\<bar>" and "\<bar>b\<bar> \<le> hb"
    and "0 \<le> la" and "0 < lb"
  shows "la / hb \<le> \<bar>a / b\<bar>" and "\<bar>a / b\<bar> \<le> ha / lb"
  unfolding abs_divide using assms by (auto intro!: frac_le)

text \<open>A rounded value of the normal range is within a factor two of its argument.\<close>

lemma rnd_in_range:
  assumes "lo \<le> \<bar>a\<bar>" and "\<bar>a\<bar> \<le> hi" and "2 powi (- 1022) \<le> lo" and "hi \<le> 2 ^ 1023"
  obtains e where "\<bar>e\<bar> \<le> 2 powi (- 53)" and "rnd a = Fin (a * (1 + e))"
    and "lo / 2 \<le> \<bar>a * (1 + e)\<bar>" and "\<bar>a * (1 + e)\<bar> \<le> 2 * hi"
proof -
  have "2 powi (- 1022) \<le> \<bar>a\<bar>" "\<bar>a\<bar> \<le> 2 ^ 1023" using assms by linarith+
  from rnd_rel_error [OF this]
  obtain e where e: "\<bar>e\<bar> \<le> 2 powi (- 53)" "rnd a = Fin (a * (1 + e))" by blast
  have "\<bar>e\<bar> \<le> 1 / 2" using e(1) by simp
  then have "1 / 2 \<le> \<bar>1 + e\<bar>" "\<bar>1 + e\<bar> \<le> 2" by linarith+
  moreover have "0 \<le> lo"
    using assms(3) zero_le_power_int [of "2::real" "- 1022"] by linarith
  ultimately have "lo * (1 / 2) \<le> \<bar>a * (1 + e)\<bar>" "\<bar>a * (1 + e)\<bar> \<le> hi * 2"
    using assms(1,2)
    by (intro abs_mult_bounds [where la = lo and ha = hi and lb = "1 / 2" and hb = 2]; simp)+
  then show thesis using e that by simp
qed

text \<open>Three roundings in a quotient of a product by a difference.\<close>

lemma rel_error_3:
  fixes a b c :: real
  assumes "\<bar>a\<bar> \<le> 2 powi (- 53)" and "\<bar>b\<bar> \<le> 2 powi (- 53)" and "\<bar>c\<bar> \<le> 2 powi (- 53)"
  shows "\<bar>(1 + a) * (1 + c) / (1 + b) - 1\<bar> \<le> 2 powi (- 51)"
proof -
  define u :: real where "u = 2 powi (- 53)"
  have u: "0 < u" "u \<le> 1 / 8" "2 powi (- 51) = 4 * u" by (simp_all add: u_def)
  have a: "\<bar>a\<bar> \<le> u" and b: "\<bar>b\<bar> \<le> u" and c: "\<bar>c\<bar> \<le> u"
    using assms by (simp_all add: u_def)
  have pos: "1 - u \<le> 1 + b" using b by linarith
  have pos': "0 < 1 + b" using pos u by linarith
  have "\<bar>a * c\<bar> \<le> u * u"
    unfolding abs_mult using a c by (intro mult_mono) simp_all
  then have num: "\<bar>(1 + a) * (1 + c) - (1 + b)\<bar> \<le> 3 * u + u * u"
    using a b c by (simp add: algebra_simps)
  have "u * u \<le> u * (1 / 8)" using u by (intro mult_left_mono) simp_all
  then have "3 * u + u * u \<le> 4 * u * (1 - u)"
    using u by (simp add: algebra_simps)
  also have "\<dots> \<le> 4 * u * (1 + b)"
    using pos u by (intro mult_left_mono) simp_all
  finally have "\<bar>(1 + a) * (1 + c) - (1 + b)\<bar> \<le> 4 * u * (1 + b)"
    using num by linarith
  then have bound: "\<bar>(1 + a) * (1 + c) - (1 + b)\<bar> / (1 + b) \<le> 4 * u"
    using pos' by (simp add: field_simps)
  have eq: "(1 + a) * (1 + c) / (1 + b) - 1 = ((1 + a) * (1 + c) - (1 + b)) / (1 + b)"
    using pos' by (simp add: field_simps)
  have "\<bar>(1 + a) * (1 + c) / (1 + b) - 1\<bar> = \<bar>(1 + a) * (1 + c) - (1 + b)\<bar> / \<bar>1 + b\<bar>"
    by (simp only: eq abs_divide)
  also have "\<dots> = \<bar>(1 + a) * (1 + c) - (1 + b)\<bar> / (1 + b)"
    using pos' by simp
  finally have "\<bar>(1 + a) * (1 + c) / (1 + b) - 1\<bar> \<le> 4 * u"
    using bound by simp
  then show ?thesis by (simp only: u(3))
qed

text \<open>
  The body shared by the two solvers, away from overflow and underflow: the product, the
  difference and the quotient are each rounded once.
\<close>

lemma solve_error:
  fixes a f :: real
  assumes a: "la \<le> \<bar>a\<bar>" "\<bar>a\<bar> \<le> ha" and f: "lf \<le> \<bar>f\<bar>" "\<bar>f\<bar> \<le> hf"
    and s: "ls \<le> \<bar>a - f\<bar>" "\<bar>a - f\<bar> \<le> hs"
    and pos: "0 < la" "0 < lf" "0 < ls"
    and r1: "2 powi (- 1022) \<le> la * lf" "ha * hf \<le> 2 ^ 1023"
    and r2: "2 powi (- 1022) \<le> ls" "hs \<le> 2 ^ 1023"
    and r3: "2 powi (- 1022) \<le> la * lf / 2 / (2 * hs)" "2 * (ha * hf) / (ls / 2) \<le> 2 ^ 1023"
  obtains \<delta> where "\<bar>\<delta>\<bar> \<le> 2 powi (- 51)"
    and "js_div (js_mul (Fin a) (Fin f)) (js_sub (Fin a) (Fin f))
           = Fin (a * f / (a - f) * (1 + \<delta>))"
proof -
  have af0: "a - f \<noteq> 0" using s(1) pos(3) by auto
  have "la * lf \<le> \<bar>a * f\<bar>" "\<bar>a * f\<bar> \<le> ha * hf"
    using a f pos
    by (intro abs_mult_bounds [where la = la and lb = lf and ha = ha and hb = hf]; simp)+
  from rnd_in_range [OF this r1]
  obtain e1 where e1: "\<bar>e1\<bar> \<le> 2 powi (- 53)"
    and p: "rnd (a * f) = Fin (a * f * (1 + e1))"
    and p_lo: "la * lf / 2 \<le> \<bar>a * f * (1 + e1)\<bar>" and p_hi: "\<bar>a * f * (1 + e1)\<bar> \<le> 2 * (ha * hf)"
    by blast
  from rnd_in_range [OF s r2]
  obtain e2 where e2: "\<bar>e2\<bar> \<le> 2 powi (- 53)"
    and q: "rnd (a - f) = Fin ((a - f) * (1 + e2))"
    and q_lo: "ls / 2 \<le> \<bar>(a - f) * (1 + e2)\<bar>" and q_hi: "\<bar>(a - f) * (1 + e2)\<bar> \<le> 2 * hs"
    by blast
  have q0: "(a - f) * (1 + e2) \<noteq> 0" using q_lo pos(3) by auto
  let ?p = "a * f * (1 + e1)" and ?q = "(a - f) * (1 + e2)"
  have "la * lf / 2 / (2 * hs) \<le> \<bar>?p / ?q\<bar>" "\<bar>?p / ?q\<bar> \<le> 2 * (ha * hf) / (ls / 2)"
    using p_lo p_hi q_lo q_hi pos
    by (intro abs_divide_bounds [where la = "la * lf / 2" and ha = "2 * (ha * hf)"
          and lb = "ls / 2" and hb = "2 * hs"]; simp)+
  from rnd_in_range [OF this r3]
  obtain e3 where e3: "\<bar>e3\<bar> \<le> 2 powi (- 53)"
    and r: "rnd (?p / ?q) = Fin (?p / ?q * (1 + e3))"
    by blast
  define \<delta> where "\<delta> = (1 + e1) * (1 + e3) / (1 + e2) - 1"
  have \<delta>: "\<bar>\<delta>\<bar> \<le> 2 powi (- 51)"
    unfolding \<delta>_def by (rule rel_error_3 [OF e1 e2 e3])
  have e2': "1 + e2 \<noteq> 0" using q0 by auto
  have "?p / ?q * (1 + e3) = a * f / (a - f) * (1 + \<delta>)"
    using af0 e2' by (simp add: \<delta>_def field_simps)
  then have "js_div (js_mul (Fin a) (Fin f)) (js_sub (Fin a) (Fin f))
               = Fin (a * f / (a - f) * (1 + \<delta>))"
    using q0 by (simp add: js_sub_def p q r)
  with \<delta> show thesis by (rule that)
qed

lemma rel_error_round_trip:
  fixes \<delta> \<delta>' k K :: real
  assumes "\<bar>\<delta>\<bar> \<le> 2 powi (- 51)" and "\<bar>\<delta>'\<bar> \<le> 2 powi (- 51)" and "\<bar>k\<bar> \<le> K"
    and "1 \<le> K" and "K \<le> 2 ^ 40"
  shows "1 / 2 \<le> 1 + k * \<delta>" and "1 + k * \<delta> \<le> 2"
    and "\<bar>(1 + \<delta>) * (1 + \<delta>') / (1 + k * \<delta>) - 1\<bar> \<le> (8 * K + 18) * 2 powi (- 53)"
proof -
  define u :: real where "u = 2 powi (- 53)"
  have u: "0 < u" "2 powi (- 51) = 4 * u" "u * 2 ^ 43 \<le> 1 / 2" "16 * u \<le> 1"
    by (simp_all add: u_def)
  have d: "\<bar>\<delta>\<bar> \<le> 4 * u" and d': "\<bar>\<delta>'\<bar> \<le> 4 * u"
    using assms(1,2) by (simp_all only: u(2))
  have "\<bar>k * \<delta>\<bar> \<le> K * (4 * u)"
    unfolding abs_mult using assms(3,4) d by (intro mult_mono) simp_all
  moreover have "K * (4 * u) \<le> 2 ^ 40 * (4 * u)"
    using assms(5) u(1) by (intro mult_right_mono) simp_all
  ultimately have kd: "\<bar>k * \<delta>\<bar> \<le> 4 * K * u" "\<bar>k * \<delta>\<bar> \<le> 1 / 2"
    using u(3) by simp_all
  show den: "1 / 2 \<le> 1 + k * \<delta>" and "1 + k * \<delta> \<le> 2" using kd(2) by linarith+
  have "\<bar>\<delta> * \<delta>'\<bar> \<le> 4 * u * (4 * u)"
    unfolding abs_mult using d d' by (intro mult_mono) simp_all
  also have "\<dots> = u * (16 * u)" by simp
  also have "\<dots> \<le> u * 1" using u by (intro mult_left_mono) simp_all
  finally have dd: "\<bar>\<delta> * \<delta>'\<bar> \<le> u" by simp
  have "(1 + \<delta>) * (1 + \<delta>') - (1 + k * \<delta>) = \<delta> + \<delta>' + \<delta> * \<delta>' - k * \<delta>"
    by (simp add: algebra_simps)
  then have num: "\<bar>(1 + \<delta>) * (1 + \<delta>') - (1 + k * \<delta>)\<bar> \<le> 9 * u + 4 * K * u"
    using d d' dd kd(1) by linarith
  have eq: "(1 + \<delta>) * (1 + \<delta>') / (1 + k * \<delta>) - 1
              = ((1 + \<delta>) * (1 + \<delta>') - (1 + k * \<delta>)) / (1 + k * \<delta>)"
    using den by (simp add: field_simps)
  have "\<bar>(1 + \<delta>) * (1 + \<delta>') / (1 + k * \<delta>) - 1\<bar>
          = \<bar>(1 + \<delta>) * (1 + \<delta>') - (1 + k * \<delta>)\<bar> / \<bar>1 + k * \<delta>\<bar>"
    by (simp only: eq abs_divide)
  also have "\<dots> \<le> (9 * u + 4 * K * u) / (1 / 2)"
    using num den u(1) assms(4) by (intro frac_le) simp_all
  also have "\<dots> = (8 * K + 18) * u" by (simp add: algebra_simps)
  finally show "\<bar>(1 + \<delta>) * (1 + \<delta>') / (1 + k * \<delta>) - 1\<bar> \<le> (8 * K + 18) * 2 powi (- 53)"
    by (simp only: u_def)
qed

section \<open>The mirror-equation solver\<close>

subsection \<open>Rounded values\<close>

lemma ev_1: "rnd (- (200 / 3)) = Fin (- (4691249611844267 / 70368744177664))"
proof -
  have "rnd (- (200 / 3)) = Fin (of_int (- 4691249611844267) * 2 powi (6 - 52))"
    by (rule rnd_value) (simp_all add: round_even_def)
  then show ?thesis by simp
qed

lemma rt_1: "rnd (- (650 / 37)) = Fin (- (4944830671943957 / 281474976710656))"
proof -
  have "rnd (- (650 / 37)) = Fin (of_int (- 4944830671943957) * 2 powi (4 - 52))"
    by (rule rnd_normal) simp_all
  then show ?thesis by simp
qed

lemma rt_2: "rnd (- (123620766798598925 / 140737488355328)) = Fin (- (7726297924912433 / 8796093022208))"
proof -
  have "rnd (- (123620766798598925 / 140737488355328)) = Fin (of_int (- 7726297924912433) * 2 powi (9 - 52))"
    by (rule rnd_normal) simp_all
  then show ?thesis by simp
qed

lemma rt_3: "rnd (- (19018579507476757 / 281474976710656)) = Fin (- (4754644876869189 / 70368744177664))"
proof -
  have "rnd (- (19018579507476757 / 281474976710656)) = Fin (of_int (- 4754644876869189) * 2 powi (6 - 52))"
    by (rule rnd_normal) simp_all
  then show ?thesis by simp
qed

lemma rt_4: "rnd (61810383399299464 / 4754644876869189) = Fin (7318349394477057 / 562949953421312)"
proof -
  have "rnd (61810383399299464 / 4754644876869189) = Fin (of_int 7318349394477057 * 2 powi (3 - 52))"
    by (rule rnd_normal) simp_all
  then show ?thesis by simp
qed

subsection \<open>The mirror equation\<close>

text \<open>
  C1, as the code has it. For object distance \<open>d\<close> and focal length \<open>f\<close> with
  \<open>d\<close>, \<open>f\<close> and \<open>d - f\<close> of magnitude between \<open>2 powi (- 100)\<close> and
  \<open>2 powi 100\<close>, \<open>calculateImageDistance d f\<close> is a finite, nonzero value \<open>di\<close>
  within the relative error \<open>2 powi (- 51)\<close> of the solution \<open>d f / (d - f)\<close> of the
  mirror equation, and \<open>1/d + 1/di - 1/f\<close> is at most \<open>2 powi (- 51)\<close> times
  \<open>1/di\<close> in magnitude. The equation does not hold exactly: for the default convex
  mirror, \<open>d = 200\<close> and \<open>f = -100\<close>, the result is the binary64 value next to
  \<open>-200/3\<close>.
\<close>

theorem mirror_equation_tolerance:
  assumes "2 powi (- 100) \<le> \<bar>d\<bar>" and "\<bar>d\<bar> \<le> 2 powi 100"
    and "2 powi (- 100) \<le> \<bar>f\<bar>" and "\<bar>f\<bar> \<le> 2 powi 100"
    and "2 powi (- 100) \<le> \<bar>d - f\<bar>"
  shows "\<exists>di. calculateImageDistance (Fin d) (Fin f) = Fin di \<and> di \<noteq> 0
              \<and> \<bar>di - d * f / (d - f)\<bar> \<le> 2 powi (- 51) * \<bar>d * f / (d - f)\<bar>
              \<and> \<bar>1 / d + 1 / di - 1 / f\<bar> \<le> 2 powi (- 51) * \<bar>1 / di\<bar>"
proof -
  define L :: real where "L = 2 powi (- 100)"
  define H :: real where "H = 2 powi 100"
  have L: "0 < L" and H: "0 < H" by (simp_all add: L_def H_def)
  have d: "L \<le> \<bar>d\<bar>" "\<bar>d\<bar> \<le> H" and f: "L \<le> \<bar>f\<bar>" "\<bar>f\<bar> \<le> H" and df: "L \<le> \<bar>d - f\<bar>"
    using assms by (simp_all add: L_def H_def)
  have d0: "d \<noteq> 0" and f0: "f \<noteq> 0" and df0: "d - f \<noteq> 0" and ne: "d \<noteq> f"
    using d f df L by auto
  have df_hi: "\<bar>d - f\<bar> \<le> 2 * H" using d f by linarith
  obtain \<delta> where \<delta>: "\<bar>\<delta>\<bar> \<le> 2 powi (- 51)"
    and sol: "js_div (js_mul (Fin d) (Fin f)) (js_sub (Fin d) (Fin f))
                = Fin (d * f / (d - f) * (1 + \<delta>))"
    by (rule solve_error [OF d f df df_hi L L L]) (simp_all add: L_def H_def)
  define dstar where "dstar = d * f / (d - f)"
  define di where "di = dstar * (1 + \<delta>)"
  have "calculateImageDistance (Fin d) (Fin f)
          = js_div (js_mul (Fin d) (Fin f)) (js_sub (Fin d) (Fin f))"
    using ne by (simp add: calculateImageDistance_def js_eq_def del: js_mul.simps js_div.simps)
  then have val: "calculateImageDistance (Fin d) (Fin f) = Fin di"
    by (simp only: sol di_def dstar_def)
  have dstar0: "dstar \<noteq> 0" using d0 f0 df0 by (simp add: dstar_def)
  have "(2::real) powi (- 51) < 1" by simp
  with \<delta> have "\<bar>\<delta>\<bar> < 1" by linarith
  then have di0: "di \<noteq> 0" using dstar0 by (auto simp add: di_def)
  have err: "\<bar>di - dstar\<bar> \<le> 2 powi (- 51) * \<bar>dstar\<bar>"
  proof -
    have "di - dstar = \<delta> * dstar" by (simp add: di_def algebra_simps)
    then have "\<bar>di - dstar\<bar> = \<bar>\<delta>\<bar> * \<bar>dstar\<bar>" by (simp add: abs_mult)
    moreover have "\<bar>\<delta>\<bar> * \<bar>dstar\<bar> \<le> 2 powi (- 51) * \<bar>dstar\<bar>"
      by (rule mult_right_mono [OF \<delta>]) simp
    ultimately show ?thesis by (simp only:)
  qed
  have res: "\<bar>1 / d + 1 / di - 1 / f\<bar> \<le> 2 powi (- 51) * \<bar>1 / di\<bar>"
  proof -
    have "1 / dstar = 1 / f - 1 / d"
      using d0 f0 df0 by (simp add: dstar_def field_simps)
    then have "1 / d + 1 / di - 1 / f = 1 / di - 1 / dstar" by simp
    also have "\<dots> = (dstar - di) / (di * dstar)"
      using di0 dstar0 by (simp add: field_simps)
    also have "dstar - di = - \<delta> * dstar" by (simp add: di_def algebra_simps)
    also have "- \<delta> * dstar / (di * dstar) = - \<delta> * (1 / di)"
      using dstar0 by simp
    finally have "\<bar>1 / d + 1 / di - 1 / f\<bar> = \<bar>\<delta>\<bar> * \<bar>1 / di\<bar>"
      by (simp add: abs_mult)
    moreover have "\<bar>\<delta>\<bar> * \<bar>1 / di\<bar> \<le> 2 powi (- 51) * \<bar>1 / di\<bar>"
      by (rule mult_right_mono [OF \<delta>]) simp
    ultimately show ?thesis by (simp only:)
  qed
  show ?thesis
    using val di0 err res unfolding dstar_def by blast
qed

theorem mirror_equation_tolerance_witness:
  "2 powi (- 100) \<le> \<bar>200 :: real\<bar> \<and> \<bar>200 :: real\<bar> \<le> 2 powi 100
   \<and> 2 powi (- 100) \<le> \<bar>- 100 :: real\<bar> \<and> \<bar>- 100 :: real\<bar> \<le> 2 powi 100
   \<and> 2 powi (- 100) \<le> \<bar>200 - (- 100) :: real\<bar>
   \<and> (\<exists>di. calculateImageDistance (Fin 200) (Fin (- 100)) = Fin di \<and> di \<noteq> 0
          \<and> \<bar>di - 200 * (- 100) / (200 - (- 100))\<bar>
              \<le> 2 powi (- 51) * \<bar>200 * (- 100) / (200 - (- 100))\<bar>
          \<and> \<bar>1 / 200 + 1 / di - 1 / (- 100)\<bar> \<le> 2 powi (- 51) * \<bar>1 / di\<bar>)"
proof -
  have h: "2 powi (- 100) \<le> \<bar>200 :: real\<bar>" "\<bar>200 :: real\<bar> \<le> 2 powi 100"
    "2 powi (- 100) \<le> \<bar>- 100 :: real\<bar>" "\<bar>- 100 :: real\<bar> \<le> 2 powi 100"
    "2 powi (- 100) \<le> \<bar>200 - (- 100) :: real\<bar>"
    by simp_all
  from mirror_equation_tolerance [OF h] h show ?thesis by blast
qed

theorem mirror_equation_inexact:
  "calculateImageDistance (Fin 200) (Fin (- 100)) = Fin (- (4691249611844267 / 70368744177664))
   \<and> 1 / 200 + 1 / (- (4691249611844267 / 70368744177664)) \<noteq> (1 / (- 100) :: real)"
  by (simp add: calculateImageDistance_def js_eq_def js_sub_def rnd_ints ev_1)

text \<open>
  C2, as the code has it. In the same range, and with \<open>|d| \<le> K |f|\<close> for some
  \<open>K\<close> between \<open>1\<close> and \<open>2 ^ 40\<close>, the inverse solve of the forward solve is
  finite and within the relative error \<open>(8 K + 18) 2 powi (- 53)\<close> of \<open>d\<close>. It is not
  \<open>d\<close> itself in general: for \<open>d = 13\<close> and \<open>f = 50\<close> it is the binary64 value
  after \<open>13\<close>.
\<close>

theorem round_trip_tolerance:
  assumes "2 powi (- 100) \<le> \<bar>d\<bar>" and "\<bar>d\<bar> \<le> 2 powi 100"
    and "2 powi (- 100) \<le> \<bar>f\<bar>" and "\<bar>f\<bar> \<le> 2 powi 100"
    and "2 powi (- 100) \<le> \<bar>d - f\<bar>"
    and "\<bar>d\<bar> \<le> K * \<bar>f\<bar>" and "1 \<le> K" and "K \<le> 2 ^ 40"
  shows "\<exists>d'. calculateObjectDistance (calculateImageDistance (Fin d) (Fin f)) (Fin f) = Fin d'
              \<and> \<bar>d' - d\<bar> \<le> (8 * K + 18) * 2 powi (- 53) * \<bar>d\<bar>"
proof -
  define L :: real where "L = 2 powi (- 100)"
  define H :: real where "H = 2 powi 100"
  have L: "0 < L" and H: "0 < H" by (simp_all add: L_def H_def)
  have d: "L \<le> \<bar>d\<bar>" "\<bar>d\<bar> \<le> H" and f: "L \<le> \<bar>f\<bar>" "\<bar>f\<bar> \<le> H" and df: "L \<le> \<bar>d - f\<bar>"
    using assms(1-5) by (simp_all add: L_def H_def)
  have d0: "d \<noteq> 0" and f0: "f \<noteq> 0" and df0: "d - f \<noteq> 0" and ne: "d \<noteq> f"
    using d f df L by auto
  have df_hi: "\<bar>d - f\<bar> \<le> 2 * H" using d f by linarith
  \<comment> \<open>the forward solve\<close>
  obtain \<delta> where \<delta>: "\<bar>\<delta>\<bar> \<le> 2 powi (- 51)"
    and sol: "js_div (js_mul (Fin d) (Fin f)) (js_sub (Fin d) (Fin f))
                = Fin (d * f / (d - f) * (1 + \<delta>))"
    by (rule solve_error [OF d f df df_hi L L L]) (simp_all add: L_def H_def)
  define dstar where "dstar = d * f / (d - f)"
  define di where "di = dstar * (1 + \<delta>)"
  have "calculateImageDistance (Fin d) (Fin f)
          = js_div (js_mul (Fin d) (Fin f)) (js_sub (Fin d) (Fin f))"
    using ne by (simp add: calculateImageDistance_def js_eq_def del: js_mul.simps js_div.simps)
  then have fwd: "calculateImageDistance (Fin d) (Fin f) = Fin di"
    by (simp only: sol di_def dstar_def)
  \<comment> \<open>the image distance and its difference from the focal length\<close>
  define k where "k = d / f"
  define g where "g = f * f / (d - f)"
  have "\<bar>k\<bar> = \<bar>d\<bar> / \<bar>f\<bar>" by (simp add: k_def)
  also have "\<dots> \<le> K" using assms(6) f0 by (simp add: field_simps)
  finally have k: "\<bar>k\<bar> \<le> K" .
  have tiny: "\<bar>\<delta>\<bar> \<le> 1 / 2" using \<delta> by simp
  have den: "1 / 2 \<le> 1 + k * \<delta>" "1 + k * \<delta> \<le> 2"
    by (rule rel_error_round_trip [OF \<delta> \<delta> k assms(7,8)])+
  have diff: "di - f = g * (1 + k * \<delta>)"
    using f0 df0 by (simp add: di_def dstar_def g_def k_def field_simps)
  have g_b: "L * L / (2 * H) \<le> \<bar>g\<bar>" "\<bar>g\<bar> \<le> H * H / L"
  proof -
    have ff: "L * L \<le> \<bar>f * f\<bar>" "\<bar>f * f\<bar> \<le> H * H"
      using f L by (intro abs_mult_bounds [where la = L and lb = L and ha = H and hb = H]; simp)+
    show "L * L / (2 * H) \<le> \<bar>g\<bar>" "\<bar>g\<bar> \<le> H * H / L"
      unfolding g_def using ff df df_hi L
      by (intro abs_divide_bounds [where la = "L * L" and ha = "H * H" and lb = L
            and hb = "2 * H"]; simp)+
  qed
  have s_b: "L * L / (2 * H) * (1 / 2) \<le> \<bar>di - f\<bar>" "\<bar>di - f\<bar> \<le> H * H / L * 2"
    unfolding diff using g_b den L H
    by (intro abs_mult_bounds [where la = "L * L / (2 * H)" and ha = "H * H / L"
          and lb = "1 / 2" and hb = 2]; simp)+
  have dstar_b: "L * L / (2 * H) \<le> \<bar>dstar\<bar>" "\<bar>dstar\<bar> \<le> H * H / L"
  proof -
    have p: "L * L \<le> \<bar>d * f\<bar>" "\<bar>d * f\<bar> \<le> H * H"
      using d f L by (intro abs_mult_bounds [where la = L and lb = L and ha = H and hb = H]; simp)+
    show "L * L / (2 * H) \<le> \<bar>dstar\<bar>" "\<bar>dstar\<bar> \<le> H * H / L"
      unfolding dstar_def using p df df_hi L
      by (intro abs_divide_bounds [where la = "L * L" and ha = "H * H" and lb = L
            and hb = "2 * H"]; simp)+
  qed
  have di_b: "L * L / (2 * H) * (1 / 2) \<le> \<bar>di\<bar>" "\<bar>di\<bar> \<le> H * H / L * 2"
  proof -
    have "1 / 2 \<le> \<bar>1 + \<delta>\<bar>" "\<bar>1 + \<delta>\<bar> \<le> 2" using tiny by linarith+
    then show "L * L / (2 * H) * (1 / 2) \<le> \<bar>di\<bar>" "\<bar>di\<bar> \<le> H * H / L * 2"
      unfolding di_def using dstar_b L H
      by (intro abs_mult_bounds [where la = "L * L / (2 * H)" and ha = "H * H / L"
            and lb = "1 / 2" and hb = 2]; simp)+
  qed
  have pos: "0 < L * L / (2 * H) * (1 / 2)" using L H by simp
  have di_ne: "di \<noteq> f" using s_b(1) pos by auto
  \<comment> \<open>the inverse solve\<close>
  obtain \<delta>' where \<delta>': "\<bar>\<delta>'\<bar> \<le> 2 powi (- 51)"
    and sol': "js_div (js_mul (Fin di) (Fin f)) (js_sub (Fin di) (Fin f))
                 = Fin (di * f / (di - f) * (1 + \<delta>'))"
    by (rule solve_error [OF di_b f s_b pos L pos]) (simp_all add: L_def H_def)
  have "calculateObjectDistance (Fin di) (Fin f)
          = js_div (js_mul (Fin di) (Fin f)) (js_sub (Fin di) (Fin f))"
    using di_ne by (simp add: calculateObjectDistance_def js_eq_def del: js_mul.simps js_div.simps)
  then have inv: "calculateObjectDistance (Fin di) (Fin f) = Fin (di * f / (di - f) * (1 + \<delta>'))"
    by (simp only: sol')
  \<comment> \<open>the error of the round trip\<close>
  have den0: "1 + k * \<delta> \<noteq> 0" using den(1) by auto
  have "di * f / (di - f) = d * (1 + \<delta>) / (1 + k * \<delta>)"
  proof -
    have "di * f = d * (1 + \<delta>) * g"
      using f0 df0 by (simp add: di_def dstar_def g_def field_simps)
    then have "di * f / (di - f) = (g * (d * (1 + \<delta>))) / (g * (1 + k * \<delta>))"
      by (simp only: diff mult.commute)
    moreover have "g \<noteq> 0" using f0 df0 by (simp add: g_def)
    ultimately show ?thesis by simp
  qed
  then have "di * f / (di - f) * (1 + \<delta>') - d
               = d * (1 + \<delta>) / (1 + k * \<delta>) * (1 + \<delta>') - d"
    by (simp only:)
  also have "\<dots> = d * ((1 + \<delta>) * (1 + \<delta>') / (1 + k * \<delta>) - 1)"
    by (simp add: right_diff_distrib)
  finally have "di * f / (di - f) * (1 + \<delta>') - d
               = d * ((1 + \<delta>) * (1 + \<delta>') / (1 + k * \<delta>) - 1)" .
  then have "\<bar>di * f / (di - f) * (1 + \<delta>') - d\<bar>
               = \<bar>(1 + \<delta>) * (1 + \<delta>') / (1 + k * \<delta>) - 1\<bar> * \<bar>d\<bar>"
    by (simp add: abs_mult)
  moreover have "\<bar>(1 + \<delta>) * (1 + \<delta>') / (1 + k * \<delta>) - 1\<bar> * \<bar>d\<bar>
                   \<le> (8 * K + 18) * 2 powi (- 53) * \<bar>d\<bar>"
    by (rule mult_right_mono [OF rel_error_round_trip(3) [OF \<delta> \<delta>' k assms(7,8)]]) simp
  ultimately have "\<bar>di * f / (di - f) * (1 + \<delta>') - d\<bar> \<le> (8 * K + 18) * 2 powi (- 53) * \<bar>d\<bar>"
    by (simp only:)
  with fwd inv show ?thesis by (simp only:) blast
qed

theorem round_trip_tolerance_witness:
  "2 powi (- 100) \<le> \<bar>13 :: real\<bar> \<and> \<bar>13 :: real\<bar> \<le> 2 powi 100
   \<and> 2 powi (- 100) \<le> \<bar>50 :: real\<bar> \<and> \<bar>50 :: real\<bar> \<le> 2 powi 100
   \<and> 2 powi (- 100) \<le> \<bar>13 - 50 :: real\<bar>
   \<and> \<bar>13 :: real\<bar> \<le> 1 * \<bar>50\<bar> \<and> (1 :: real) \<le> 1 \<and> (1 :: real) \<le> 2 ^ 40
   \<and> (\<exists>d'. calculateObjectDistance (calculateImageDistance (Fin 13) (Fin 50)) (Fin 50) = Fin d'
          \<and> \<bar>d' - 13\<bar> \<le> (8 * 1 + 18) * 2 powi (- 53) * \<bar>13\<bar>)"
proof -
  have h: "2 powi (- 100) \<le> \<bar>13 :: real\<bar>" "\<bar>13 :: real\<bar> \<le> 2 powi 100"
    "2 powi (- 100) \<le> \<bar>50 :: real\<bar>" "\<bar>50 :: real\<bar> \<le> 2 powi 100"
    "2 powi (- 100) \<le> \<bar>13 - 50 :: real\<bar>"
    "\<bar>13 :: real\<bar> \<le> 1 * \<bar>50\<bar>" "(1 :: real) \<le> 1" "(1 :: real) \<le> 2 ^ 40"
    by simp_all
  from round_trip_tolerance [OF h] h show ?thesis by blast
qed

theorem round_trip_inexact:
  "calculateImageDistance (Fin 13) (Fin 50) = Fin (- (4944830671943957 / 281474976710656))
   \<and> calculateObjectDistance (calculateImageDistance (Fin 13) (Fin 50)) (Fin 50)
       = Fin (7318349394477057 / 562949953421312)
   \<and> calculateObjectDistance (calculateImageDistance (Fin 13) (Fin 50)) (Fin 50) \<noteq> Fin 13"
  by (simp add: calculateImageDistance_def calculateObjectDistance_def js_eq_def js_sub_def
      rnd_ints rt_1 rt_2 rt_3 rt_4)

subsection \<open>The plane mirror and the object at the focus\<close>

text \<open>
  C3. For a plane mirror \<open>calculateImage\<close> returns \<open>imageDistance = -objectDistance\<close>,
  \<open>imageHeight = objectHeight\<close>, \<open>magnification = 1\<close> and \<open>isReal = false\<close>,
  whatever the object distance, and the result is the same for every focal length.
\<close>

theorem plane_mirror_image:
  "calculateImage \<lparr> mirrorType = PLANE, focalLength = f, objectDistance = d,
                    objectHeight = h \<rparr>
     = \<lparr> imageDistance = js_neg d, imageHeight = h, magnification = Fin 1,
         isReal = False \<rparr>
   \<and> calculateImage \<lparr> mirrorType = PLANE, focalLength = f, objectDistance = d,
                      objectHeight = h \<rparr>
     = calculateImage \<lparr> mirrorType = PLANE, focalLength = f', objectDistance = d,
                        objectHeight = h \<rparr>"
  by (simp add: calculateImage_def)

text \<open>
  C4. When the object distance equals the focal length (\<open>objDist === f\<close>),
  \<open>calculateImageDistance\<close> returns \<open>Infinity\<close>: not \<open>NaN\<close>, and in absolute
  value above every finite threshold. \<open>calculateImage\<close> reports the same image
  distance for a curved mirror.
\<close>

theorem image_at_infinity:
  assumes "js_eq d f"
  shows "calculateImageDistance d f = PInf
       \<and> calculateImageDistance d f \<noteq> NaN
       \<and> (\<forall>t. js_gt (js_abs (calculateImageDistance d f)) (Fin t))
       \<and> (m \<noteq> PLANE \<longrightarrow>
            imageDistance (calculateImage \<lparr> mirrorType = m, focalLength = f,
                             objectDistance = d, objectHeight = h \<rparr>) = PInf)"
  using assms by (simp add: calculateImageDistance_def calculateImage_def js_gt_def Let_def)

theorem image_at_infinity_witness:
  "js_eq (Fin 100) (Fin 100) \<and> CONCAVE \<noteq> PLANE
   \<and> calculateImageDistance (Fin 100) (Fin 100) = PInf
   \<and> js_gt (js_abs (calculateImageDistance (Fin 100) (Fin 100))) (Fin 1000000)
   \<and> imageDistance (calculateImage \<lparr> mirrorType = CONCAVE, focalLength = Fin 100,
                      objectDistance = Fin 100, objectHeight = Fin 50 \<rparr>) = PInf"
  using image_at_infinity [of "Fin 100" "Fin 100" CONCAVE "Fin 50"]
  by (simp add: js_eq_def js_gt_def)

text \<open>
  The guard decides the case before any arithmetic: at \<open>f = 0\<close> the quotient itself
  would be \<open>0 / 0\<close>.
\<close>

lemma division_at_zero_focal_length:
  "js_div (js_mul (Fin 0) (Fin 0)) (js_sub (Fin 0) (Fin 0)) = NaN"
  "calculateImageDistance (Fin 0) (Fin 0) = PInf"
  by (simp_all add: js_sub_def inf_of_sign_def calculateImageDistance_def js_eq_def)

text \<open>
  C10. The forward and the inverse solver are the same function: they agree on every
  pair of arguments.
\<close>

theorem solvers_agree:
  "calculateImageDistance a f = calculateObjectDistance a f"
  by (simp add: calculateImageDistance_def calculateObjectDistance_def)

section \<open>The inverse-drive handler\<close>

text \<open>
  C9. For a non-plane mirror, \<open>handleImageDistanceChange\<close> returns the state as it
  was, so \<open>objectDistance\<close> is unchanged, whenever the object distance computed by
  \<open>calculateObjectDistance\<close> is not strictly between \<open>0\<close> and \<open>1000\<close>. The
  solver's value is used as it is: at \<open>di = 50\<close>, \<open>f = 100\<close> it is \<open>-100\<close>.
\<close>

theorem out_of_range_rejected:
  assumes "mirrorType s \<noteq> PLANE"
    and "\<not> (js_gt (calculateObjectDistance di (focalLength s)) (Fin 0)
           \<and> js_lt (calculateObjectDistance di (focalLength s)) (Fin 1000))"
  shows "handleImageDistanceChange s di = s"
  using assms by (auto simp add: handleImageDistanceChange_def Let_def)

theorem out_of_range_rejected_witness:
  "mirrorType \<lparr> mirrorType = CONCAVE, focalLength = Fin 100, objectDistance = Fin 200,
                objectHeight = Fin 50 \<rparr> \<noteq> PLANE
   \<and> calculateObjectDistance (Fin 50) (Fin 100) = Fin (- 100)
   \<and> \<not> js_gt (Fin (- 100)) (Fin 0)
   \<and> objectDistance
       (handleImageDistanceChange
          \<lparr> mirrorType = CONCAVE, focalLength = Fin 100, objectDistance = Fin 200,
            objectHeight = Fin 50 \<rparr> (Fin 50)) = Fin 200"
proof -
  have solve: "calculateObjectDistance (Fin 50) (Fin 100) = Fin (- 100)"
    by (simp add: calculateObjectDistance_def js_eq_def js_sub_def rnd_ints)
  show ?thesis
    using out_of_range_rejected
      [of "\<lparr> mirrorType = CONCAVE, focalLength = Fin 100, objectDistance = Fin 200,
             objectHeight = Fin 50 \<rparr>" "Fin 50"]
    by (simp add: solve js_gt_def)
qed

section \<open>Reflection points\<close>

subsection \<open>Rounded values\<close>

text \<open>
  The roundings met by \<open>getIntersection\<close> for the parallel ray and for the ray through
  the focus in the initial state, and for the parallel ray after the image-distance slider
  is set to \<open>-600\<close> with \<open>f = 75\<close> and an object of height \<open>150\<close>.
\<close>

lemma parallel_1: "rnd (sqrt 13500000000) = Fin (7984481668758481 / 68719476736)"
  by (rule rnd_sqrt_normal [where e = 16 and m = 7984481668758481])
    (simp_all add: power2_eq_square)

lemma parallel_2: "rnd (7984481668758481 / 68719476736) = Fin (7984481668758481 / 68719476736)"
  by (rule rnd_exact [where m = "7984481668758481" and k = "-36"]) simp_all

lemma parallel_3: "rnd (7984481668758481 / 12369505812480000) = Fin (5814122118263953 / 9007199254740992)"
proof -
  have "rnd (7984481668758481 / 12369505812480000) = Fin (of_int 5814122118263953 * 2 powi (-1 - 52))"
    by (rule rnd_value) (simp_all add: round_even_def)
  then show ?thesis by simp
qed

lemma parallel_4: "rnd (- (7984481668758481 / 68719476736)) = Fin (- (7984481668758481 / 68719476736))"
  by (rule rnd_exact [where m = "-7984481668758481" and k = "-36"]) simp_all

lemma parallel_5: "rnd (- (7984481668758481 / 12369505812480000)) = Fin (- (5814122118263953 / 9007199254740992))"
proof -
  have "rnd (- (7984481668758481 / 12369505812480000)) = Fin (of_int (- 5814122118263953) * 2 powi (-1 - 52))"
    by (rule rnd_value) (simp_all add: round_even_def)
  then show ?thesis by simp
qed

lemma parallel_6: "rnd (436059158869796475 / 2251799813685248) = Fin (3406712178670285 / 17592186044416)"
proof -
  have "rnd (436059158869796475 / 2251799813685248) = Fin (of_int 6813424357340570 * 2 powi (7 - 52))"
    by (rule rnd_value) (simp_all add: round_even_def)
  then show ?thesis by simp
qed

lemma parallel_7: "rnd (5165930783111885 / 17592186044416) = Fin (5165930783111885 / 17592186044416)"
  by (rule rnd_exact [where m = "5165930783111885" and k = "-44"]) simp_all

lemma parallel_8: "rnd (- (436059158869796475 / 2251799813685248)) = Fin (- (3406712178670285 / 17592186044416))"
proof -
  have "rnd (- (436059158869796475 / 2251799813685248)) = Fin (of_int (- 6813424357340570) * 2 powi (7 - 52))"
    by (rule rnd_value) (simp_all add: round_even_def)
  then show ?thesis by simp
qed

lemma parallel_9: "rnd (- (1647493574228685 / 17592186044416)) = Fin (- (1647493574228685 / 17592186044416))"
  by (rule rnd_exact [where m = "-1647493574228685" and k = "-44"]) simp_all

lemma parallel_10: "rnd (- (111725030212915 / 17592186044416)) = Fin (- (111725030212915 / 17592186044416))"
  by (rule rnd_exact [where m = "-111725030212915" and k = "-44"]) simp_all

lemma parallel_11: "rnd (- (6925149387553485 / 17592186044416)) = Fin (- (6925149387553485 / 17592186044416))"
  by (rule rnd_exact [where m = "-6925149387553485" and k = "-44"]) simp_all

lemma focal_1: "rnd (sqrt 1900000000) = Fin (2995412545452183 / 68719476736)"
  by (rule rnd_sqrt_normal [where e = 15 and m = 5990825090904366])
    (simp_all add: power2_eq_square)

lemma focal_2: "rnd (3339009929132183 / 68719476736) = Fin (3339009929132183 / 68719476736)"
  by (rule rnd_exact [where m = "3339009929132183" and k = "-36"]) simp_all

lemma focal_3: "rnd (3339009929132183 / 1717986918400000) = Fin (4376507094312135 / 2251799813685248)"
proof -
  have "rnd (3339009929132183 / 1717986918400000) = Fin (of_int 8753014188624270 * 2 powi (0 - 52))"
    by (rule rnd_value) (simp_all add: round_even_def)
  then show ?thesis by simp
qed

lemma focal_4: "rnd (- (2651815161772183 / 68719476736)) = Fin (- (2651815161772183 / 68719476736))"
  by (rule rnd_exact [where m = "-2651815161772183" and k = "-36"]) simp_all

lemma focal_5: "rnd (- (2651815161772183 / 1717986918400000)) = Fin (- (6951574337676071 / 4503599627370496))"
proof -
  have "rnd (- (2651815161772183 / 1717986918400000)) = Fin (of_int (- 6951574337676071) * 2 powi (0 - 52))"
    by (rule rnd_value) (simp_all add: round_even_def)
  then show ?thesis by simp
qed

lemma focal_6: "rnd (109412677357803375 / 562949953421312) = Fin (6838292334862711 / 35184372088832)"
proof -
  have "rnd (109412677357803375 / 562949953421312) = Fin (of_int 6838292334862711 * 2 powi (7 - 52))"
    by (rule rnd_value) (simp_all add: round_even_def)
  then show ?thesis by simp
qed

lemma focal_7: "rnd (10356729543745911 / 35184372088832) = Fin (1294591192968239 / 4398046511104)"
proof -
  have "rnd (10356729543745911 / 35184372088832) = Fin (of_int 5178364771872956 * 2 powi (8 - 52))"
    by (rule rnd_value) (simp_all add: round_even_def)
  then show ?thesis by simp
qed

lemma focal_8: "rnd (109412677357803375 / 1125899906842624) = Fin (6838292334862711 / 70368744177664)"
proof -
  have "rnd (109412677357803375 / 1125899906842624) = Fin (of_int 6838292334862711 * 2 powi (6 - 52))"
    by (rule rnd_value) (simp_all add: round_even_def)
  then show ?thesis by simp
qed

lemma focal_9: "rnd (20912041170395511 / 70368744177664) = Fin (2614005146299439 / 8796093022208)"
proof -
  have "rnd (20912041170395511 / 70368744177664) = Fin (of_int 5228010292598878 * 2 powi (8 - 52))"
    by (rule rnd_value) (simp_all add: round_even_def)
  then show ?thesis by simp
qed

lemma focal_10: "rnd (- (173789358441901775 / 1125899906842624)) = Fin (- (2715458725654715 / 17592186044416))"
proof -
  have "rnd (- (173789358441901775 / 1125899906842624)) = Fin (of_int (- 5430917451309430) * 2 powi (7 - 52))"
    by (rule rnd_value) (simp_all add: round_even_def)
  then show ?thesis by simp
qed

lemma focal_11: "rnd (- (956240121213115 / 17592186044416)) = Fin (- (956240121213115 / 17592186044416))"
  by (rule rnd_exact [where m = "-956240121213115" and k = "-44"]) simp_all

lemma focal_12: "rnd (- (173789358441901775 / 2251799813685248)) = Fin (- (2715458725654715 / 35184372088832))"
proof -
  have "rnd (- (173789358441901775 / 2251799813685248)) = Fin (of_int (- 5430917451309430) * 2 powi (6 - 52))"
    by (rule rnd_value) (simp_all add: round_even_def)
  then show ?thesis by simp
qed

lemma focal_13: "rnd (4321415692111685 / 35184372088832) = Fin (4321415692111685 / 35184372088832)"
  by (rule rnd_exact [where m = "4321415692111685" and k = "-45"]) simp_all

lemma focal_14: "rnd (- (24822760362961 / 4398046511104)) = Fin (- (24822760362961 / 4398046511104))"
  by (rule rnd_exact [where m = "-24822760362961" and k = "-42"]) simp_all

lemma focal_15: "rnd (- (6233895934537915 / 17592186044416)) = Fin (- (6233895934537915 / 17592186044416))"
  by (rule rnd_exact [where m = "-6233895934537915" and k = "-44"]) simp_all

lemma tangent_1: "rnd (200 / 3) = Fin (4691249611844267 / 70368744177664)"
proof -
  have "rnd (200 / 3) = Fin (of_int 4691249611844267 * 2 powi (6 - 52))"
    by (rule rnd_value) (simp_all add: round_even_def)
  then show ?thesis by simp
qed

lemma tangent_2: "rnd (16419373641454933 / 70368744177664) = Fin (4104843410363733 / 17592186044416)"
proof -
  have "rnd (16419373641454933 / 70368744177664) = Fin (of_int 8209686820727466 * 2 powi (7 - 52))"
    by (rule rnd_value) (simp_all add: round_even_def)
  then show ?thesis by simp
qed

lemma tangent_3: "rnd (2932031007402667 / 17592186044416) = Fin (2932031007402667 / 17592186044416)"
  by (rule rnd_exact [where m = "2932031007402667" and k = "-44"]) simp_all

lemma tangent_4: "rnd (8596805828370698308153478712889 / 309485009821345068724781056) = Fin (7635497415111113 / 274877906944)"
proof -
  have "rnd (8596805828370698308153478712889 / 309485009821345068724781056) = Fin (of_int 7635497415111113 * 2 powi (14 - 52))"
    by (rule rnd_value) (simp_all add: round_even_def)
  then show ?thesis by simp
qed

lemma tangent_5: "rnd (7635497415111113 / 274877906944) = Fin (7635497415111113 / 274877906944)"
  by (rule rnd_exact [where m = "7635497415111113" and k = "-38"]) simp_all

lemma tangent_6: "rnd (1466015503701333 / 17592186044416) = Fin (1466015503701333 / 17592186044416)"
  by (rule rnd_exact [where m = "1466015503701333" and k = "-44"]) simp_all

lemma tangent_7: "rnd (4298402914185347688061235655111 / 309485009821345068724781056) = Fin (3817748707555555 / 274877906944)"
proof -
  have "rnd (4298402914185347688061235655111 / 309485009821345068724781056) = Fin (of_int 7635497415111110 * 2 powi (13 - 52))"
    by (rule rnd_value) (simp_all add: round_even_def)
  then show ?thesis by simp
qed

lemma tangent_8: "rnd (3817748707555555 / 274877906944) = Fin (3817748707555555 / 274877906944)"
  by (rule rnd_exact [where m = "3817748707555555" and k = "-38"]) simp_all

lemma tangent_9: "rnd (3817748707555555 / 137438953472) = Fin (3817748707555555 / 137438953472)"
  by (rule rnd_exact [where m = "3817748707555555" and k = "-37"]) simp_all

lemma tangent_10: "rnd (2149201457092673111022865976889 / 309485009821345068724781056) = Fin (1908874353777777 / 274877906944)"
proof -
  have "rnd (2149201457092673111022865976889 / 309485009821345068724781056) = Fin (of_int 7635497415111108 * 2 powi (12 - 52))"
    by (rule rnd_value) (simp_all add: round_even_def)
  then show ?thesis by simp
qed

lemma tangent_11: "rnd (8093627260017777 / 274877906944) = Fin (8093627260017777 / 274877906944)"
  by (rule rnd_exact [where m = "8093627260017777" and k = "-38"]) simp_all

lemma tangent_12: "rnd (1908874353777777 / 274877906944) = Fin (1908874353777777 / 274877906944)"
  by (rule rnd_exact [where m = "1908874353777777" and k = "-38"]) simp_all

lemma tangent_13: "rnd (14575205194042110615143411358025 / 18889465931478580854784) = Fin (6472691358024689 / 8388608)"
proof -
  have "rnd (14575205194042110615143411358025 / 18889465931478580854784) = Fin (of_int 6472691358024689 * 2 powi (29 - 52))"
    by (rule rnd_value) (simp_all add: round_even_def)
  then show ?thesis by simp
qed

lemma tangent_14: "rnd (7635497415111113 / 68719476736) = Fin (7635497415111113 / 68719476736)"
  by (rule rnd_exact [where m = "7635497415111113" and k = "-36"]) simp_all

lemma tangent_15: "rnd (14575205194042112524017765135801 / 18889465931478580854784) = Fin (3236345679012345 / 4194304)"
proof -
  have "rnd (14575205194042112524017765135801 / 18889465931478580854784) = Fin (of_int 6472691358024690 * 2 powi (29 - 52))"
    by (rule rnd_value) (simp_all add: round_even_def)
  then show ?thesis by simp
qed

lemma tangent_16: "rnd (- (1 / 8388608)) = Fin (- (1 / 8388608))"
  by (rule rnd_exact [where m = "-1" and k = "-23"]) simp_all

lemmas parallel_steps = parallel_1 parallel_2 parallel_3 parallel_4 parallel_5 parallel_6
  parallel_7 parallel_8 parallel_9 parallel_10 parallel_11

lemmas focal_steps = focal_1 focal_2 focal_3 focal_4 focal_5 focal_6 focal_7 focal_8 focal_9
  focal_10 focal_11 focal_12 focal_13 focal_14 focal_15

lemmas tangent_steps = tangent_1 tangent_2 tangent_3 tangent_4 tangent_5 tangent_6 tangent_7
  tangent_8 tangent_9 tangent_10 tangent_11 tangent_12 tangent_13 tangent_14 tangent_15
  tangent_16

lemma parallel_ray:
  "getIntersection CONCAVE (Fin 300) (Fin 250) (Fin 100) (Fin 250) (Fin 200)
     (Fin 100) (Fin 200) (Fin 400) (Fin 200)
   = \<lparr> x = Fin (5165930783111885 / 17592186044416), y = Fin 200 \<rparr>"
  by (simp add: getIntersection_def Let_def js_sub_def rnd_ints parallel_steps)

lemma focal_ray:
  "getIntersection CONCAVE (Fin 300) (Fin 250) (Fin 100) (Fin 250) (Fin 200)
     (Fin 100) (Fin 200) (Fin 200) (Fin 250)
   = \<lparr> x = Fin (1294591192968239 / 4398046511104),
       y = Fin (2614005146299439 / 8796093022208) \<rparr>"
  by (simp add: getIntersection_def Let_def js_sub_def rnd_ints focal_steps)

lemma tangent_state:
  "handleImageDistanceChange (initialState\<lparr> focalLength := Fin 75, objectHeight := Fin 150 \<rparr>)
     (Fin (- 600))
   = initialState\<lparr> focalLength := Fin 75, objectHeight := Fin 150,
       objectDistance := Fin (4691249611844267 / 70368744177664) \<rparr>"
  by (simp add: handleImageDistanceChange_def calculateObjectDistance_def initialState_def
      js_eq_def js_sub_def js_gt_def Let_def rnd_ints tangent_steps)

subsection \<open>Which point is returned\<close>





subsection \<open>The returned point and the mirror\<close>

text \<open>
  The point returned for the parallel ray of the initial state is not on the circle of
  radius \<open>|2 f| = 200\<close> about \<open>(100, 250)\<close>: its distance from the centre is less
  than \<open>200\<close>.
\<close>

lemma parallel_ray_off_circle:
  "getIntersection CONCAVE (Fin 300) (Fin 250)
     (js_sub (Fin 300) (js_mul (Fin 2) (Fin 100))) (Fin 250) (js_abs (js_mul (Fin 2) (Fin 100)))
     (Fin 100) (Fin 200) (Fin 400) (Fin 200)
   = \<lparr> x = Fin (5165930783111885 / 17592186044416), y = Fin 200 \<rparr>
   \<and> sqrt ((5165930783111885 / 17592186044416 - (300 - 2 * 100))\<^sup>2 + (200 - 250)\<^sup>2)
       \<noteq> \<bar>2 * 100\<bar>"
proof -
  have "(5165930783111885 / 17592186044416 - (300 - 2 * 100))\<^sup>2 + (200 - 250)\<^sup>2
          < (200::real)\<^sup>2"
    by (simp add: power2_eq_square)
  then have "sqrt ((5165930783111885 / 17592186044416 - (300 - 2 * 100))\<^sup>2 + (200 - 250)\<^sup>2)
               < sqrt ((200::real)\<^sup>2)"
    by (simp only: real_sqrt_less_iff)
  then have "sqrt ((5165930783111885 / 17592186044416 - (300 - 2 * 100))\<^sup>2 + (200 - 250)\<^sup>2)
               \<noteq> \<bar>2 * 100\<bar>"
    by simp
  moreover have "js_sub (Fin 300) (js_mul (Fin 2) (Fin 100)) = Fin 100"
    "js_abs (js_mul (Fin 2) (Fin 100)) = Fin 200"
    by (simp_all add: js_sub_def rnd_ints)
  ultimately show ?thesis by (simp only: parallel_ray) simp
qed

section \<open>The drawing\<close>

text \<open>
  C7. For a curved mirror the image tip's \<open>y\<close> is the \<open>y\<close> of the point that
  \<open>getIntersection\<close> returns for the segment from the object tip to the focal point;
  for a plane mirror it is \<open>centerY - imageHeight\<close>. The image arrow, when drawn,
  ends at that tip. The magnification and the image height shown are those of
  \<open>calculateImage\<close> in both cases. In the initial state the two heights differ:
  the solver's value puts the tip at \<open>y = 300\<close>, the drawing does not.
\<close>

theorem image_tip_height:
  "let centerX = js_sub (js_div w (Fin 2)) (Fin 100);
       centerY = js_div h (Fin 2);
       R = js_mul (Fin 2) (focalLength s);
       objX = js_sub centerX (objectDistance s);
       objY = js_sub centerY (objectHeight s);
       fX = js_sub centerX (focalLength s);
       v = App s w h
   in (mirrorType s \<noteq> PLANE \<longrightarrow>
         imgTipY (drawing v)
           = y (getIntersection (mirrorType s) centerX centerY (js_sub centerX R) centerY
                  (js_abs R) objX objY fX centerY))
    \<and> (mirrorType s = PLANE \<longrightarrow>
         imgTipY (drawing v) = js_sub centerY (imageHeight (calculateImage s)))
    \<and> (\<forall>arrow. imageArrow (drawing v) = Some arrow \<longrightarrow>
         lineTo arrow = \<lparr> x = imgTipX (drawing v), y = imgTipY (drawing v) \<rparr>)
    \<and> magnification (shown v) = magnification (calculateImage s)
    \<and> imageHeight (shown v) = imageHeight (calculateImage s)"
  by (simp add: App_def drawEffect_def drawArrow_def Let_def)

theorem image_tip_height_witness:
  "mirrorType initialState \<noteq> PLANE
   \<and> imgTipY (drawing (App initialState (Fin 800) (Fin 500)))
       = y (getIntersection CONCAVE (Fin 300) (Fin 250) (Fin 100) (Fin 250) (Fin 200)
              (Fin 100) (Fin 200) (Fin 200) (Fin 250))
   \<and> imgTipY (drawing (App initialState (Fin 800) (Fin 500))) \<noteq> Fin 300
   \<and> js_sub (Fin 250) (imageHeight (shown (App initialState (Fin 800) (Fin 500)))) = Fin 300
   \<and> magnification (shown (App initialState (Fin 800) (Fin 500))) = Fin (- 1)
   \<and> imgTipY (drawing (App (initialState\<lparr> mirrorType := PLANE \<rparr>) (Fin 800) (Fin 500)))
       = Fin 200"
proof -
  let ?g = "getIntersection CONCAVE (Fin 300) (Fin 250) (Fin 100) (Fin 250) (Fin 200)
              (Fin 100) (Fin 200) (Fin 200) (Fin 250)"
  have img: "calculateImage initialState
               = \<lparr> imageDistance = Fin 200, imageHeight = Fin (- 50),
                   magnification = Fin (- 1), isReal = True \<rparr>"
    by (simp add: initialState_def calculateImage_def calculateImageDistance_def js_eq_def
        js_sub_def js_gt_def Let_def rnd_ints)
  have curved: "imgTipY (drawing (App initialState (Fin 800) (Fin 500))) = y ?g"
    "magnification (shown (App initialState (Fin 800) (Fin 500))) = Fin (- 1)"
    "imageHeight (shown (App initialState (Fin 800) (Fin 500))) = Fin (- 50)"
    using image_tip_height [of "Fin 800" "Fin 500" initialState]
    by (simp_all add: Let_def img js_sub_def rnd_ints)
      (simp_all add: initialState_def js_sub_def rnd_ints)
  have plane: "imgTipY (drawing (App (initialState\<lparr> mirrorType := PLANE \<rparr>) (Fin 800) (Fin 500)))
                 = Fin 200"
    using image_tip_height [of "Fin 800" "Fin 500" "initialState\<lparr> mirrorType := PLANE \<rparr>"]
    by (simp add: Let_def initialState_def calculateImage_def js_sub_def rnd_ints)
  have "y ?g = Fin (2614005146299439 / 8796093022208)"
    by (simp add: focal_ray)
  then have "y ?g \<noteq> Fin 300" by simp
  with curved plane show ?thesis
    by (simp add: initialState_def js_sub_def rnd_ints)
qed

text \<open>
  C8. When the image is virtual, every ray drawn (two for a plane mirror, three for a
  curved one) has a virtual extension from its reflection point to the image tip
  \<open>(imgTipX, imgTipY)\<close>.
\<close>

theorem virtual_extensions_end_at_tip:
  assumes "\<not> isReal (calculateImage s)"
  shows "let d = drawing (App s w h)
         in (\<forall>ray \<in> set (rays d). virtualExtensionTo ray \<lparr> x = imgTipX d, y = imgTipY d \<rparr>)
          \<and> length (rays d) = (if mirrorType s = PLANE then 2 else 3)"
proof (cases "mirrorType s = PLANE")
  case True
  then have "imageHeight (calculateImage s) = objectHeight s"
    by (simp add: calculateImage_def)
  then show ?thesis
    using True
    by (simp add: App_def drawEffect_def drawRay_def virtualExtensionTo_def Let_def)
next
  case False
  then show ?thesis
    using assms
    by (simp add: App_def drawEffect_def drawRay_def virtualExtensionTo_def Let_def)
qed

theorem virtual_extensions_end_at_tip_witness:
  "\<not> isReal (calculateImage (initialState\<lparr> mirrorType := CONVEX, focalLength := Fin (- 100) \<rparr>))
   \<and> length (rays (drawing (App (initialState\<lparr> mirrorType := CONVEX, focalLength := Fin (- 100) \<rparr>)
                               (Fin 800) (Fin 500)))) = 3
   \<and> virtualExtensionTo
        (rays (drawing (App (initialState\<lparr> mirrorType := CONVEX, focalLength := Fin (- 100) \<rparr>)
                          (Fin 800) (Fin 500))) ! 1)
        \<lparr> x = imgTipX (drawing (App (initialState\<lparr> mirrorType := CONVEX,
                                       focalLength := Fin (- 100) \<rparr>) (Fin 800) (Fin 500))),
          y = imgTipY (drawing (App (initialState\<lparr> mirrorType := CONVEX,
                                       focalLength := Fin (- 100) \<rparr>) (Fin 800) (Fin 500))) \<rparr>"
proof -
  let ?s = "initialState\<lparr> mirrorType := CONVEX, focalLength := Fin (- 100) \<rparr>"
  let ?d = "drawing (App ?s (Fin 800) (Fin 500))"
  have virt: "\<not> isReal (calculateImage ?s)"
    by (simp add: initialState_def calculateImage_def calculateImageDistance_def js_eq_def
        js_sub_def js_gt_def Let_def rnd_ints ev_1)
  have m: "mirrorType ?s \<noteq> PLANE" by simp
  from virtual_extensions_end_at_tip [OF virt, of "Fin 800" "Fin 500"]
  have all: "\<forall>ray \<in> set (rays ?d). virtualExtensionTo ray \<lparr> x = imgTipX ?d, y = imgTipY ?d \<rparr>"
    and len: "length (rays ?d) = 3"
    using m by (simp_all add: Let_def)
  have "rays ?d ! 1 \<in> set (rays ?d)"
    by (rule nth_mem) (simp add: len)
  with all have "virtualExtensionTo (rays ?d ! 1) \<lparr> x = imgTipX ?d, y = imgTipY ?d \<rparr>"
    by blast
  with virt len show ?thesis by blast
qed

end
